theory Spec2Isabelle
  imports Main "HOL-Library.AList"
begin

section \<open>JavaScript values\<close>

text \<open>
  The values the server handles are JSON documents and the JavaScript objects built
  from them, so one datatype covers both: the JSON values and \<open>undefined\<close>.
  An object is the list of its own properties in enumeration order, with distinct
  keys. Numbers are the integers: the program never computes with a number, it only
  passes numbers on and prints them, and an integer prints in decimal. Strings are
  byte strings (UTF-8), which is exact wherever the program looks at a string as a
  whole, and for ASCII where it looks at single characters.
\<close>

datatype jsval =
    Undefined
  | Null
  | Bool bool
  | Num int
  | Str string
  | Arr "jsval list"
  | Obj "(string \<times> jsval) list"

text \<open>Errors are values: every \<open>throw\<close> and every rejected promise of the source.\<close>

datatype zod_code = invalid_type | invalid_enum_value | too_small

datatype zod_issue = Issue "string list" zod_code

datatype error =
    Error string              \<comment> \<open>\<open>new Error(message)\<close>\<close>
  | TypeError                 \<comment> \<open>raised by the runtime: property of \<open>null\<close>, spread of a non-iterable, \<open>fetch\<close> rejecting\<close>
  | SyntaxError               \<comment> \<open>\<open>response.json()\<close> on a body that is not JSON\<close>
  | ZodError "zod_issue list" \<comment> \<open>\<open>schema.parse\<close> on a non-conforming input\<close>

text \<open>JavaScript truthiness, as \<open>options.body ? ... : ...\<close> tests it.\<close>

fun truthy :: "jsval \<Rightarrow> bool" where
  "truthy Undefined = False"
| "truthy Null = False"
| "truthy (Bool b) = b"
| "truthy (Num n) = (n \<noteq> 0)"
| "truthy (Str s) = (s \<noteq> [])"
| "truthy (Arr xs) = True"
| "truthy (Obj fs) = True"

text \<open>\<open>v == null\<close>: true of \<open>null\<close> and of \<open>undefined\<close>.\<close>

fun nullish :: "jsval \<Rightarrow> bool" where
  "nullish Undefined = True"
| "nullish Null = True"
| "nullish v = False"

text \<open>Reading a property of an object: \<open>undefined\<close> when the object has no such key.\<close>

definition lookup :: "(string \<times> jsval) list \<Rightarrow> string \<Rightarrow> jsval" where
  "lookup fs k = (case map_of fs k of None \<Rightarrow> Undefined | Some v \<Rightarrow> v)"

text \<open>
  \<open>v.k\<close> for the property names the program reads (none of them is inherited from
  a prototype): a \<open>TypeError\<close> on \<open>null\<close> and \<open>undefined\<close>, \<open>undefined\<close>
  on the other values that are not objects.
\<close>

fun get_prop :: "jsval \<Rightarrow> string \<Rightarrow> error + jsval" where
  "get_prop Undefined k = Inl TypeError"
| "get_prop Null k = Inl TypeError"
| "get_prop (Obj fs) k = Inr (lookup fs k)"
| "get_prop v k = Inr Undefined"

section \<open>Printing\<close>

definition digit_char :: "nat \<Rightarrow> char" where
  "digit_char d = char_of (48 + d)"

fun show_nat :: "nat \<Rightarrow> string" where
  "show_nat n = (if n < 10 then [digit_char n] else show_nat (n div 10) @ [digit_char (n mod 10)])"

declare show_nat.simps [simp del]

definition show_int :: "int \<Rightarrow> string" where
  "show_int i = (if i < 0 then CHR ''-'' # show_nat (nat (- i)) else show_nat (nat i))"

definition hex_lower :: "nat \<Rightarrow> char" where
  "hex_lower d = (if d < 10 then char_of (48 + d) else char_of (87 + d))"

definition hex_upper :: "nat \<Rightarrow> char" where
  "hex_upper d = (if d < 10 then char_of (48 + d) else char_of (55 + d))"

fun join :: "string \<Rightarrow> string list \<Rightarrow> string" where
  "join sep [] = []"
| "join sep [s] = s"
| "join sep (s # t # ss) = s @ sep @ join sep (t # ss)"

text \<open>\<open>JSON.stringify\<close> of a string: quotes, with the escapes of the standard.\<close>

definition escape_char :: "char \<Rightarrow> string" where
  "escape_char c =
     (let n = (of_char c :: nat) in
      if n = 0x22 then [CHR 0x5C, CHR 0x22]
      else if n = 0x5C then [CHR 0x5C, CHR 0x5C]
      else if n = 0x08 then [CHR 0x5C, CHR ''b'']
      else if n = 0x0C then [CHR 0x5C, CHR ''f'']
      else if n = 0x0A then [CHR 0x5C, CHR ''n'']
      else if n = 0x0D then [CHR 0x5C, CHR ''r'']
      else if n = 0x09 then [CHR 0x5C, CHR ''t'']
      else if n < 0x20 then
        [CHR 0x5C, CHR ''u'', CHR ''0'', CHR ''0'', hex_lower (n div 16), hex_lower (n mod 16)]
      else [c])"

definition quote :: "string \<Rightarrow> string" where
  "quote s = CHR 0x22 # concat (map escape_char s) @ [CHR 0x22]"

text \<open>
  The brackets around the members of an object or the elements of an array: nothing
  between them when there is no member, the members on one line when the gap is
  empty, one member per line at the new indentation otherwise.
\<close>

definition wrap :: "string \<Rightarrow> string \<Rightarrow> string \<Rightarrow> string \<Rightarrow> string list \<Rightarrow> string" where
  "wrap opn cls gap stepback partial =
     (if partial = [] then opn @ cls
      else if gap = [] then opn @ join '','' partial @ cls
      else opn @ [CHR 0x0A] @ (stepback @ gap)
           @ join (CHR '','' # CHR 0x0A # stepback @ gap) partial
           @ [CHR 0x0A] @ stepback @ cls)"

text \<open>
  \<open>JSON.stringify(value, null, gap)\<close>. A property whose value is \<open>undefined\<close>
  is left out of an object; \<open>undefined\<close> in an array prints as \<open>null\<close>; the
  result for \<open>undefined\<close> itself is \<open>undefined\<close> (here \<open>None\<close>).
\<close>

fun serialize :: "string \<Rightarrow> string \<Rightarrow> jsval \<Rightarrow> string option"
and serialize_members :: "string \<Rightarrow> string \<Rightarrow> (string \<times> jsval) list \<Rightarrow> string list"
and serialize_elements :: "string \<Rightarrow> string \<Rightarrow> jsval list \<Rightarrow> string list"
where
  "serialize gap ind Undefined = None"
| "serialize gap ind Null = Some ''null''"
| "serialize gap ind (Bool b) = Some (if b then ''true'' else ''false'')"
| "serialize gap ind (Num n) = Some (show_int n)"
| "serialize gap ind (Str s) = Some (quote s)"
| "serialize gap ind (Arr xs) =
     Some (wrap ''['' '']'' gap ind (serialize_elements gap (ind @ gap) xs))"
| "serialize gap ind (Obj fs) =
     Some (wrap ''{'' ''}'' gap ind (serialize_members gap (ind @ gap) fs))"
| "serialize_members gap ind [] = []"
| "serialize_members gap ind ((k, v) # fs) =
     (case serialize gap ind v of
        None \<Rightarrow> serialize_members gap ind fs
      | Some s \<Rightarrow>
          (quote k @ '':'' @ (if gap = [] then [] else '' '') @ s)
          # serialize_members gap ind fs)"
| "serialize_elements gap ind [] = []"
| "serialize_elements gap ind (x # xs) =
     (case serialize gap ind x of None \<Rightarrow> ''null'' | Some s \<Rightarrow> s)
     # serialize_elements gap ind xs"

definition JSON_stringify :: "jsval \<Rightarrow> string option" where
  "JSON_stringify v = serialize [] [] v"

text \<open>\<open>JSON.stringify(value, null, 2)\<close>: a gap of two spaces.\<close>

definition JSON_stringify_pretty :: "jsval \<Rightarrow> string option" where
  "JSON_stringify_pretty v = serialize ''  '' [] v"

text \<open>
  \<open>String(v)\<close>, the conversion a \<open>URLSearchParams\<close> applies to the values of
  the record it is built from. An array prints its elements separated by commas,
  \<open>null\<close> and \<open>undefined\<close> among them as the empty string.
\<close>

fun to_string :: "jsval \<Rightarrow> string"
and to_string_elements :: "jsval list \<Rightarrow> string list"
where
  "to_string Undefined = ''undefined''"
| "to_string Null = ''null''"
| "to_string (Bool b) = (if b then ''true'' else ''false'')"
| "to_string (Num n) = show_int n"
| "to_string (Str s) = s"
| "to_string (Arr xs) = join '','' (to_string_elements xs)"
| "to_string (Obj fs) = ''[object Object]''"
| "to_string_elements [] = []"
| "to_string_elements (x # xs) =
     (case x of Undefined \<Rightarrow> [] | Null \<Rightarrow> [] | _ \<Rightarrow> to_string x) # to_string_elements xs"

section \<open>Query strings\<close>

text \<open>
  The \<open>application/x-www-form-urlencoded\<close> serializer behind
  \<open>URLSearchParams.toString()\<close>: letters, digits and \<open>* - . _\<close> stand for
  themselves, a space becomes \<open>+\<close>, every other byte becomes \<open>%XX\<close>.
\<close>

definition urlencode_char :: "char \<Rightarrow> string" where
  "urlencode_char c =
     (let n = (of_char c :: nat) in
      if (0x30 \<le> n \<and> n \<le> 0x39) \<or> (0x41 \<le> n \<and> n \<le> 0x5A) \<or> (0x61 \<le> n \<and> n \<le> 0x7A)
         \<or> n = 0x2A \<or> n = 0x2D \<or> n = 0x2E \<or> n = 0x5F
      then [c]
      else if n = 0x20 then ''+''
      else [CHR ''%'', hex_upper (n div 16), hex_upper (n mod 16)])"

definition urlencode :: "string \<Rightarrow> string" where
  "urlencode s = concat (map urlencode_char s)"

definition URLSearchParams_toString :: "(string \<times> string) list \<Rightarrow> string" where
  "URLSearchParams_toString ps = join ''&'' (map (\<lambda>(k, v). urlencode k @ ''='' @ urlencode v) ps)"

text \<open>
  The object spread \<open>{...a, ...b}\<close>: the properties of \<open>a\<close> in their order, a key
  of \<open>b\<close> that \<open>a\<close> has taking \<open>b\<close>'s value in \<open>a\<close>'s place, the other keys of
  \<open>b\<close> after them.
\<close>

definition object_spread :: "(string \<times> 'v) list \<Rightarrow> (string \<times> 'v) list \<Rightarrow> (string \<times> 'v) list" where
  "object_spread a b = fold (\<lambda>(k, v). AList.update k v) b a"

section \<open>The HTTP client wrapper\<close>

datatype http_method = GET | POST | PUT | PATCH | DELETE

text \<open>
  \<open>RequestOptions\<close>; its field \<open>method\<close> is \<open>opt_method\<close> here, and a body
  that is not given is \<open>undefined\<close>.
\<close>

record RequestOptions =
  opt_method :: "http_method option"
  body :: jsval

text \<open>What \<open>fetch\<close> is called with.\<close>

record request =
  req_url :: string
  req_method :: http_method
  req_headers :: "(string \<times> string) list"
  req_body :: "string option"

text \<open>
  What \<open>fetch\<close> resolves to: the status and the outcome of \<open>response.json()\<close>,
  \<open>None\<close> when the body is not a JSON text.
\<close>

record response =
  status :: nat
  json :: "jsval option"

datatype fetched = Rejected | Responded response

text \<open>
  The remote service, as the program sees it: the outcome of a call of \<open>fetch\<close>
  given the calls made before it (\<open>Rejected\<close> is the promise of \<open>fetch\<close>
  rejecting, as it does when the network fails). Every function that may call
  \<open>fetch\<close> takes the list of the calls made so far and returns it with its own
  calls appended, next to its result: no network call has been made when the list
  comes back as it was.
\<close>

type_synonym fetch = "request list \<Rightarrow> request \<Rightarrow> fetched"

definition VERSION :: string where
  "VERSION = ''0.1.0''"

definition ok :: "response \<Rightarrow> bool" where
  "ok r = (200 \<le> status r \<and> status r \<le> 299)"

definition request_headers :: "string option \<Rightarrow> (string \<times> string) list" where
  "request_headers api_key =
     [(''Accept'', ''application/json''),
      (''Content-Type'', ''application/json''),
      (''User-Agent'', ''troccomcp/'' @ VERSION),
      (''Authorization'', ''Token '' @ (case api_key of None \<Rightarrow> ''undefined'' | Some k \<Rightarrow> k))]"

definition troccoRequest ::
  "fetch \<Rightarrow> string option \<Rightarrow> request list \<Rightarrow> string \<Rightarrow> RequestOptions
     \<Rightarrow> (error + jsval) \<times> request list" where
  "troccoRequest fetch api_key log url options =
     (let req = \<lparr> req_url = url,
                  req_method = (case opt_method options of None \<Rightarrow> GET | Some m \<Rightarrow> m),
                  req_headers = request_headers api_key,
                  req_body = (if truthy (body options) then JSON_stringify (body options) else None) \<rparr>;
          log' = log @ [req]
      in case fetch log req of
           Rejected \<Rightarrow> (Inl TypeError, log')
         | Responded r \<Rightarrow>
             if \<not> ok r then
               (Inl (Error (''TROCCO API request failed: '' @ show_nat (status r))), log')
             else (case json r of None \<Rightarrow> (Inl SyntaxError, log') | Some v \<Rightarrow> (Inr v, log')))"

section \<open>The pagination aggregator\<close>

text \<open>
  \<open>...v\<close> in an argument list: the elements of an array, the characters of a
  string, a \<open>TypeError\<close> on every other value.
\<close>

fun spread_elements :: "jsval \<Rightarrow> error + jsval list" where
  "spread_elements (Arr xs) = Inr xs"
| "spread_elements (Str s) = Inr (map (\<lambda>c. Str [c]) s)"
| "spread_elements v = Inl TypeError"

definition nextParams :: "(string \<times> string) list \<Rightarrow> jsval \<Rightarrow> (string \<times> string) list" where
  "nextParams params nextCursor =
     object_spread params
       (if nullish nextCursor then [(''limit'', ''5'')]
        else [(''limit'', ''5''), (''cursor'', to_string nextCursor)])"

text \<open>
  The \<open>do ... while (nextCursor != null)\<close> loop, from the state it is in at the top
  of its body: the items pushed so far and the cursor. It has no bound, so it is a
  partial function: \<open>None\<close> is the run that never returns.
\<close>

partial_function (option) pagination_loop ::
  "fetch \<Rightarrow> string option \<Rightarrow> request list \<Rightarrow> string \<Rightarrow> (string \<times> string) list
     \<Rightarrow> RequestOptions \<Rightarrow> jsval list \<Rightarrow> jsval \<Rightarrow> ((error + jsval list) \<times> request list) option" where
  "pagination_loop fetch api_key log url params options items nextCursor =
     (let nextUrl = url @ ''?'' @ URLSearchParams_toString (nextParams params nextCursor) in
      case troccoRequest fetch api_key log nextUrl options of
        (Inl e, log') \<Rightarrow> Some (Inl e, log')
      | (Inr data, log') \<Rightarrow>
          (case get_prop data ''items'' of
             Inl e \<Rightarrow> Some (Inl e, log')
           | Inr its \<Rightarrow>
               (case spread_elements its of
                  Inl e \<Rightarrow> Some (Inl e, log')
                | Inr xs \<Rightarrow>
                    (case get_prop data ''next_cursor'' of
                       Inl e \<Rightarrow> Some (Inl e, log')
                     | Inr c \<Rightarrow>
                         if nullish c then Some (Inr (items @ xs), log')
                         else pagination_loop fetch api_key log' url params options (items @ xs) c))))"

declare pagination_loop.simps [code]

definition withPagination ::
  "fetch \<Rightarrow> string option \<Rightarrow> request list \<Rightarrow> string \<Rightarrow> (string \<times> string) list
     \<Rightarrow> RequestOptions \<Rightarrow> ((error + jsval list) \<times> request list) option" where
  "withPagination fetch api_key log url params options =
     pagination_loop fetch api_key log url params options [] Null"

text \<open>The defaults of the optional parameters: \<open>params = {}\<close> and \<open>options = {}\<close>.\<close>

definition no_params :: "(string \<times> string) list" where
  "no_params = []"

definition no_options :: RequestOptions where
  "no_options = \<lparr> opt_method = None, body = Undefined \<rparr>"

section \<open>Input schemas\<close>

text \<open>
  A schema's \<open>parse\<close> returns the typed value or the issues it found, each with the
  path of the offending field; \<open>ap\<close> puts the fields of an object together and
  keeps the issues of all of them, in the order of the schema.
\<close>

type_synonym 'a parsed = "zod_issue list + 'a"

definition ap :: "('a \<Rightarrow> 'b) parsed \<Rightarrow> 'a parsed \<Rightarrow> 'b parsed" where
  "ap f x =
     (case f of
        Inl e1 \<Rightarrow> (case x of Inl e2 \<Rightarrow> Inl (e1 @ e2) | Inr a \<Rightarrow> Inl e1)
      | Inr g \<Rightarrow> (case x of Inl e2 \<Rightarrow> Inl e2 | Inr a \<Rightarrow> Inr (g a)))"

fun z_string :: "string list \<Rightarrow> jsval \<Rightarrow> string parsed" where
  "z_string path (Str s) = Inr s"
| "z_string path v = Inl [Issue path invalid_type]"

text \<open>\<open>z.string().min(1)\<close>\<close>

fun z_string_min1 :: "string list \<Rightarrow> jsval \<Rightarrow> string parsed" where
  "z_string_min1 path (Str s) = (if 1 \<le> length s then Inr s else Inl [Issue path too_small])"
| "z_string_min1 path v = Inl [Issue path invalid_type]"

fun z_boolean :: "string list \<Rightarrow> jsval \<Rightarrow> bool parsed" where
  "z_boolean path (Bool b) = Inr b"
| "z_boolean path v = Inl [Issue path invalid_type]"

fun z_number :: "string list \<Rightarrow> jsval \<Rightarrow> int parsed" where
  "z_number path (Num n) = Inr n"
| "z_number path v = Inl [Issue path invalid_type]"

fun z_enum :: "string list \<Rightarrow> string list \<Rightarrow> jsval \<Rightarrow> string parsed" where
  "z_enum values path (Str s) =
     (if s \<in> set values then Inr s else Inl [Issue path invalid_enum_value])"
| "z_enum values path v = Inl [Issue path invalid_type]"

fun z_optional :: "(string list \<Rightarrow> jsval \<Rightarrow> 'a parsed) \<Rightarrow> string list \<Rightarrow> jsval \<Rightarrow> 'a option parsed" where
  "z_optional schema path Undefined = Inr None"
| "z_optional schema path v = (case schema path v of Inl e \<Rightarrow> Inl e | Inr a \<Rightarrow> Inr (Some a))"

definition connectionTypes :: "string list" where
  "connectionTypes =
     [''bigquery'', ''gcs'', ''google_spreadsheet'', ''snowflake'', ''mysql'', ''s3'',
      ''salesforce'', ''postgresql'', ''google_analytics4'']"

record ListConnectionsInput =
  connectionType :: string

fun ListConnectionsInputSchema :: "string list \<Rightarrow> jsval \<Rightarrow> ListConnectionsInput parsed" where
  "ListConnectionsInputSchema path (Obj fs) =
     ap (Inr (\<lambda>t. \<lparr> connectionType = t \<rparr>))
        (z_enum connectionTypes (path @ [''connectionType'']) (lookup fs ''connectionType''))"
| "ListConnectionsInputSchema path v = Inl [Issue path invalid_type]"

record DatamartBigqueryOption =
  bigqueryConnectionId :: int
  queryMode :: string
  query :: string
  destinationDataset :: string
  destinationTable :: string
  writeDisposition :: string

record CreateDatamartDefinitionInput =
  name :: string
  dataWarehouseType :: string
  description :: "string option"
  isRunnableConcurrently :: bool
  datamartBigqueryOption :: "DatamartBigqueryOption option"

fun DatamartBigqueryOptionSchema :: "string list \<Rightarrow> jsval \<Rightarrow> DatamartBigqueryOption parsed" where
  "DatamartBigqueryOptionSchema path (Obj fs) =
     ap (ap (ap (ap (ap (ap
       (Inr (\<lambda>c m q d t w.
          \<lparr> bigqueryConnectionId = c, queryMode = m, query = q, destinationDataset = d,
            destinationTable = t, writeDisposition = w \<rparr>))
       (z_number (path @ [''bigqueryConnectionId'']) (lookup fs ''bigqueryConnectionId'')))
       (z_enum [''insert''] (path @ [''queryMode'']) (lookup fs ''queryMode'')))
       (z_string (path @ [''query'']) (lookup fs ''query'')))
       (z_string (path @ [''destinationDataset'']) (lookup fs ''destinationDataset'')))
       (z_string (path @ [''destinationTable'']) (lookup fs ''destinationTable'')))
       (z_enum [''append'', ''truncate''] (path @ [''writeDisposition'']) (lookup fs ''writeDisposition''))"
| "DatamartBigqueryOptionSchema path v = Inl [Issue path invalid_type]"

fun CreateDatamartDefinitionInputSchema ::
  "string list \<Rightarrow> jsval \<Rightarrow> CreateDatamartDefinitionInput parsed" where
  "CreateDatamartDefinitionInputSchema path (Obj fs) =
     ap (ap (ap (ap (ap
       (Inr (\<lambda>n w d r b.
          \<lparr> name = n, dataWarehouseType = w, description = d, isRunnableConcurrently = r,
            datamartBigqueryOption = b \<rparr>))
       (z_string_min1 (path @ [''name'']) (lookup fs ''name'')))
       (z_enum [''bigquery''] (path @ [''dataWarehouseType'']) (lookup fs ''dataWarehouseType'')))
       (z_optional z_string (path @ [''description'']) (lookup fs ''description'')))
       (z_boolean (path @ [''isRunnableConcurrently'']) (lookup fs ''isRunnableConcurrently'')))
       (z_optional DatamartBigqueryOptionSchema (path @ [''datamartBigqueryOption''])
          (lookup fs ''datamartBigqueryOption''))"
| "CreateDatamartDefinitionInputSchema path v = Inl [Issue path invalid_type]"

text \<open>\<open>schema.parse(value)\<close>: the typed value, or a \<open>ZodError\<close> thrown.\<close>

definition parse :: "(string list \<Rightarrow> jsval \<Rightarrow> 'a parsed) \<Rightarrow> jsval \<Rightarrow> error + 'a" where
  "parse schema v = (case schema [] v of Inl issues \<Rightarrow> Inl (ZodError issues) | Inr a \<Rightarrow> Inr a)"

section \<open>Tool operations\<close>

fun map_result :: "('a \<Rightarrow> error + 'b) \<Rightarrow> 'a list \<Rightarrow> error + 'b list" where
  "map_result f [] = Inr []"
| "map_result f (x # xs) =
     (case f x of
        Inl e \<Rightarrow> Inl e
      | Inr y \<Rightarrow> (case map_result f xs of Inl e \<Rightarrow> Inl e | Inr ys \<Rightarrow> Inr (y # ys)))"

text \<open>The callback of \<open>connections.map\<close> in \<open>listConnections\<close>.\<close>

definition project_connection :: "jsval \<Rightarrow> error + jsval" where
  "project_connection connection =
     (case get_prop connection ''id'' of
        Inl e \<Rightarrow> Inl e
      | Inr i \<Rightarrow>
          (case get_prop connection ''name'' of
             Inl e \<Rightarrow> Inl e
           | Inr n \<Rightarrow>
               (case get_prop connection ''description'' of
                  Inl e \<Rightarrow> Inl e
                | Inr d \<Rightarrow> Inr (Obj [(''id'', i), (''name'', n), (''description'', d)]))))"

definition listConnections ::
  "fetch \<Rightarrow> string option \<Rightarrow> request list \<Rightarrow> ListConnectionsInput
     \<Rightarrow> ((error + jsval list) \<times> request list) option" where
  "listConnections fetch api_key log input =
     (let url = ''https://trocco.io/api/connections/'' @ connectionType input in
      case withPagination fetch api_key log url no_params no_options of
        None \<Rightarrow> None
      | Some (Inl e, log') \<Rightarrow> Some (Inl e, log')
      | Some (Inr connections, log') \<Rightarrow> Some (map_result project_connection connections, log'))"

text \<open>\<open>input.datamartBigqueryOption?.field\<close>\<close>

definition optional_chain :: "'a option \<Rightarrow> ('a \<Rightarrow> jsval) \<Rightarrow> jsval" where
  "optional_chain v f = (case v of None \<Rightarrow> Undefined | Some a \<Rightarrow> f a)"

text \<open>The \<open>options\<close> constant of \<open>createDatamartDefinition\<close>, with the request body.\<close>

definition createDatamartDefinition_options :: "CreateDatamartDefinitionInput \<Rightarrow> RequestOptions" where
  "createDatamartDefinition_options input =
     \<lparr> opt_method = Some POST,
       body = Obj
         [(''name'', Str (name input)),
          (''data_warehouse_type'', Str (dataWarehouseType input)),
          (''description'', (case description input of None \<Rightarrow> Undefined | Some d \<Rightarrow> Str d)),
          (''is_runnable_concurrently'', Bool (isRunnableConcurrently input)),
          (''datamart_bigquery_option'', Obj
             [(''bigquery_connection_id'',
                 optional_chain (datamartBigqueryOption input) (\<lambda>b. Num (bigqueryConnectionId b))),
              (''query_mode'', optional_chain (datamartBigqueryOption input) (\<lambda>b. Str (queryMode b))),
              (''query'', optional_chain (datamartBigqueryOption input) (\<lambda>b. Str (query b))),
              (''destination_dataset'',
                 optional_chain (datamartBigqueryOption input) (\<lambda>b. Str (destinationDataset b))),
              (''destination_table'',
                 optional_chain (datamartBigqueryOption input) (\<lambda>b. Str (destinationTable b))),
              (''write_disposition'',
                 optional_chain (datamartBigqueryOption input) (\<lambda>b. Str (writeDisposition b)))])] \<rparr>"

text \<open>The object \<open>createDatamartDefinition\<close> returns, built from the response.\<close>

definition datamartDefinition_result :: "jsval \<Rightarrow> error + jsval" where
  "datamartDefinition_result datamartDefinition =
     (case map_result (\<lambda>k. case get_prop datamartDefinition k of Inl e \<Rightarrow> Inl e | Inr v \<Rightarrow> Inr (k, v))
             [''id'', ''name'', ''data_warehouse_type'', ''description'',
              ''is_runnable_concurrently'', ''datamart_bigquery_option''] of
        Inl e \<Rightarrow> Inl e
      | Inr fs \<Rightarrow> Inr (Obj fs))"

definition createDatamartDefinition ::
  "fetch \<Rightarrow> string option \<Rightarrow> request list \<Rightarrow> CreateDatamartDefinitionInput
     \<Rightarrow> (error + jsval) \<times> request list" where
  "createDatamartDefinition fetch api_key log input =
     (let url = ''https://trocco.io/api/datamart_definitions'' in
      case troccoRequest fetch api_key log url (createDatamartDefinition_options input) of
        (Inl e, log') \<Rightarrow> (Inl e, log')
      | (Inr datamartDefinition, log') \<Rightarrow> (datamartDefinition_result datamartDefinition, log'))"

section \<open>Dispatch\<close>

text \<open>\<open>request.params\<close> of a tool call.\<close>

record CallToolRequest =
  tool_name :: string
  arguments :: jsval

text \<open>\<open>{ content: [{ type: "text", text: JSON.stringify(value, null, 2) }] }\<close>\<close>

definition text_content :: "jsval \<Rightarrow> jsval" where
  "text_content v =
     Obj [(''content'', Arr [Obj [(''type'', Str ''text''),
        (''text'', (case JSON_stringify_pretty v of None \<Rightarrow> Undefined | Some s \<Rightarrow> Str s))]])]"

text \<open>
  The handler of \<open>CallToolRequestSchema\<close>. The protocol library delivers the
  arguments as an object, or as \<open>undefined\<close> when the invocation has none.
\<close>

definition call_tool ::
  "fetch \<Rightarrow> string option \<Rightarrow> request list \<Rightarrow> CallToolRequest
     \<Rightarrow> ((error + jsval) \<times> request list) option" where
  "call_tool fetch api_key log params =
     (if \<not> truthy (arguments params) then Some (Inl (Error ''Arguments are required''), log)
      else if tool_name params = ''list_connections'' then
        (case parse ListConnectionsInputSchema (arguments params) of
           Inl e \<Rightarrow> Some (Inl e, log)
         | Inr input \<Rightarrow>
             (case listConnections fetch api_key log input of
                None \<Rightarrow> None
              | Some (Inl e, log') \<Rightarrow> Some (Inl e, log')
              | Some (Inr connections, log') \<Rightarrow> Some (Inr (text_content (Arr connections)), log')))
      else if tool_name params = ''create_datamart_definition'' then
        (case parse CreateDatamartDefinitionInputSchema (arguments params) of
           Inl e \<Rightarrow> Some (Inl e, log)
         | Inr input \<Rightarrow>
             (case createDatamartDefinition fetch api_key log input of
                (Inl e, log') \<Rightarrow> Some (Inl e, log')
              | (Inr result, log') \<Rightarrow> Some (Inr (text_content result), log')))
      else Some (Inl (Error (''Unknown tool name: '' @ tool_name params)), log))"

section \<open>Vocabulary of the properties\<close>

text \<open>
  The definitions of this section are not code of the server: they say what a property
  speaks about (the requests a paginated fetch is expected to make, a service that
  answers with given pages, the renaming of field names).
\<close>

text \<open>
  The query of the request for one page: the base parameters with \<open>limit\<close> set to
  \<open>5\<close> and, for every page but the first, \<open>cursor\<close> set to the cursor of the
  page before.
\<close>

definition page_query :: "(string \<times> string) list \<Rightarrow> string option \<Rightarrow> (string \<times> string) list" where
  "page_query params cursor =
     (case cursor of
        None \<Rightarrow> AList.update ''limit'' ''5'' params
      | Some c \<Rightarrow> AList.update ''cursor'' c (AList.update ''limit'' ''5'' params))"

text \<open>The request for one page, as the wrapper sends it.\<close>

definition page_request ::
  "string option \<Rightarrow> string \<Rightarrow> (string \<times> string) list \<Rightarrow> RequestOptions \<Rightarrow> string option \<Rightarrow> request" where
  "page_request api_key url params options cursor =
     \<lparr> req_url = url @ ''?'' @ URLSearchParams_toString (page_query params cursor),
       req_method = (case opt_method options of None \<Rightarrow> GET | Some m \<Rightarrow> m),
       req_headers = request_headers api_key,
       req_body = (if truthy (body options) then JSON_stringify (body options) else None) \<rparr>"

text \<open>The requests for the pages that follow the cursors \<open>c1, ..., cn\<close>: \<open>n + 1\<close> of them.\<close>

definition expected_requests ::
  "string option \<Rightarrow> string \<Rightarrow> (string \<times> string) list \<Rightarrow> RequestOptions \<Rightarrow> string list \<Rightarrow> request list" where
  "expected_requests api_key url params options cursors =
     map (page_request api_key url params options) (None # map Some cursors)"

text \<open>A successful response that carries a page: its items and its cursor, \<open>null\<close> on the last page.\<close>

definition page_response :: "jsval list \<Rightarrow> string option \<Rightarrow> fetched" where
  "page_response its cursor =
     Responded \<lparr> status = 200,
                 json = Some (Obj [(''items'', Arr its),
                                   (''next_cursor'', (case cursor of None \<Rightarrow> Null | Some c \<Rightarrow> Str c))]) \<rparr>"

text \<open>
  The responses of a sequence of pages, each but the last with its cursor:
  \<open>pages\<close> are the first \<open>N - 1\<close> pages, \<open>final\<close> the items of the last one.
\<close>

definition page_responses :: "(jsval list \<times> string) list \<Rightarrow> jsval list \<Rightarrow> fetched list" where
  "page_responses pages final =
     map (\<lambda>p. page_response (fst p) (Some (snd p))) pages @ [page_response final None]"

text \<open>
  The service answers the requests \<open>q1, q2, ...\<close>, made in this order after the calls
  of \<open>log\<close>, with \<open>r1, r2, ...\<close>.
\<close>

fun serves :: "fetch \<Rightarrow> request list \<Rightarrow> (request \<times> fetched) list \<Rightarrow> bool" where
  "serves fetch log [] = True"
| "serves fetch log ((q, r) # qrs) = (fetch log q = r \<and> serves fetch (log @ [q]) qrs)"

text \<open>A service that answers the calls with the responses of a script, in order, whatever is asked.\<close>

definition scripted :: "fetched list \<Rightarrow> fetch" where
  "scripted rs log req = (if length log < length rs then rs ! length log else Rejected)"

text \<open>The cursor variable of the loop: \<open>null\<close> before the first page.\<close>

definition cursor_value :: "string option \<Rightarrow> jsval" where
  "cursor_value c = (case c of None \<Rightarrow> Null | Some s \<Rightarrow> Str s)"

text \<open>The request the loop makes when its cursor variable holds \<open>cur\<close>.\<close>

definition sent_request ::
  "string option \<Rightarrow> string \<Rightarrow> (string \<times> string) list \<Rightarrow> RequestOptions \<Rightarrow> jsval \<Rightarrow> request" where
  "sent_request api_key url params options cur =
     \<lparr> req_url = url @ ''?'' @ URLSearchParams_toString (nextParams params cur),
       req_method = (case opt_method options of None \<Rightarrow> GET | Some m \<Rightarrow> m),
       req_headers = request_headers api_key,
       req_body = (if truthy (body options) then JSON_stringify (body options) else None) \<rparr>"

text \<open>\<open>Object.keys\<close>\<close>

fun Object_keys :: "jsval \<Rightarrow> string list" where
  "Object_keys (Obj fs) = map fst fs"
| "Object_keys v = []"

text \<open>
  The snake-case form of a camel-case name: every capital letter becomes an
  underscore and the small letter.
\<close>

definition snake_char :: "char \<Rightarrow> string" where
  "snake_char c =
     (let n = (of_char c :: nat) in
      if 0x41 \<le> n \<and> n \<le> 0x5A then [CHR ''_'', char_of (n + 32)] else [c])"

definition snake_case :: "string \<Rightarrow> string" where
  "snake_case s = concat (map snake_char s)"

text \<open>An object with every key renamed, its nested objects too; the values are kept.\<close>

fun rename_keys :: "(string \<Rightarrow> string) \<Rightarrow> jsval \<Rightarrow> jsval"
and rename_fields :: "(string \<Rightarrow> string) \<Rightarrow> (string \<times> jsval) list \<Rightarrow> (string \<times> jsval) list"
and rename_elements :: "(string \<Rightarrow> string) \<Rightarrow> jsval list \<Rightarrow> jsval list"
where
  "rename_keys f (Obj fs) = Obj (rename_fields f fs)"
| "rename_keys f (Arr xs) = Arr (rename_elements f xs)"
| "rename_keys f Undefined = Undefined"
| "rename_keys f Null = Null"
| "rename_keys f (Bool b) = Bool b"
| "rename_keys f (Num n) = Num n"
| "rename_keys f (Str s) = Str s"
| "rename_fields f [] = []"
| "rename_fields f ((k, v) # fs) = (f k, rename_keys f v) # rename_fields f fs"
| "rename_elements f [] = []"
| "rename_elements f (x # xs) = rename_keys f x # rename_elements f xs"

text \<open>
  The object a value of the input type is: one property per field, under the name
  of the field, none for an optional field that is absent.
\<close>

definition DatamartBigqueryOption_object :: "DatamartBigqueryOption \<Rightarrow> jsval" where
  "DatamartBigqueryOption_object b =
     Obj [(''bigqueryConnectionId'', Num (bigqueryConnectionId b)),
          (''queryMode'', Str (queryMode b)),
          (''query'', Str (query b)),
          (''destinationDataset'', Str (destinationDataset b)),
          (''destinationTable'', Str (destinationTable b)),
          (''writeDisposition'', Str (writeDisposition b))]"

definition CreateDatamartDefinitionInput_object :: "CreateDatamartDefinitionInput \<Rightarrow> jsval" where
  "CreateDatamartDefinitionInput_object input =
     Obj ([(''name'', Str (name input)),
           (''dataWarehouseType'', Str (dataWarehouseType input))]
          @ (case description input of None \<Rightarrow> [] | Some d \<Rightarrow> [(''description'', Str d)])
          @ [(''isRunnableConcurrently'', Bool (isRunnableConcurrently input))]
          @ (case datamartBigqueryOption input of
               None \<Rightarrow> []
             | Some b \<Rightarrow> [(''datamartBigqueryOption'', DatamartBigqueryOption_object b)]))"

section \<open>Evaluation lemmas\<close>

lemma show_nat_500: "show_nat 500 = ''500''"
  by code_simp

lemma show_nat_404: "show_nat 404 = ''404''"
  by code_simp

lemma show_int_0: "show_int 0 = ''0''"
  by code_simp

lemma show_int_1: "show_int 1 = ''1''"
  by code_simp

lemma JSON_stringify_truthy: "truthy v \<Longrightarrow> \<exists>s. JSON_stringify v = Some s"
  by (cases v) (simp_all add: JSON_stringify_def)

lemma limit_query: "URLSearchParams_toString [(''limit'', ''5'')] = ''limit=5''"
  by (simp add: URLSearchParams_toString_def urlencode_def urlencode_char_def)

section \<open>The HTTP client wrapper: status and outcome\<close>

text \<open>Every call of the wrapper makes one call of \<open>fetch\<close>, whatever comes back.\<close>

lemma snd_troccoRequest:
  "snd (troccoRequest fetch api_key log url options) =
     log @ [\<lparr> req_url = url,
              req_method = (case opt_method options of None \<Rightarrow> GET | Some m \<Rightarrow> m),
              req_headers = request_headers api_key,
              req_body = (if truthy (body options) then JSON_stringify (body options) else None) \<rparr>]"
  by (simp add: troccoRequest_def Let_def split: fetched.splits option.splits)

text \<open>
  C5. When the service responds to the request of \<open>troccoRequest\<close>, the outcome is
  decided by the status alone: outside 200..299 the call fails with the error
  \<open>TROCCO API request failed: <status>\<close>, the same for a 4xx and a 5xx status and
  whatever the response body is; inside 200..299 the call returns what
  \<open>response.json()\<close> gives. In particular, when the service answers
  \<open>/connections/bigquery?limit=5\<close> with status 500, invoking \<open>list_connections\<close>
  with \<open>connectionType = "bigquery"\<close> fails with the error that names status 500.
\<close>

theorem troccoRequest_status_outcome:
  "(fetch log (last (snd (troccoRequest fetch api_key log url options))) = Responded r \<longrightarrow>
      fst (troccoRequest fetch api_key log url options) =
        (if 200 \<le> status r \<and> status r \<le> 299
         then (case json r of None \<Rightarrow> Inl SyntaxError | Some v \<Rightarrow> Inr v)
         else Inl (Error (''TROCCO API request failed: '' @ show_nat (status r)))))
   \<and> (fetch log \<lparr> req_url = ''https://trocco.io/api/connections/bigquery?limit=5'',
                    req_method = GET, req_headers = request_headers api_key, req_body = None \<rparr>
        = Responded \<lparr> status = 500, json = j \<rparr> \<longrightarrow>
      call_tool fetch api_key log
        \<lparr> tool_name = ''list_connections'', arguments = Obj [(''connectionType'', Str ''bigquery'')] \<rparr>
      = Some (Inl (Error ''TROCCO API request failed: 500''),
              log @ [\<lparr> req_url = ''https://trocco.io/api/connections/bigquery?limit=5'',
                    req_method = GET, req_headers = request_headers api_key, req_body = None \<rparr>]))"
proof (intro conjI impI)
  assume r: "fetch log (last (snd (troccoRequest fetch api_key log url options))) = Responded r"
  then have "fetch log \<lparr> req_url = url,
              req_method = (case opt_method options of None \<Rightarrow> GET | Some m \<Rightarrow> m),
              req_headers = request_headers api_key,
              req_body = (if truthy (body options) then JSON_stringify (body options) else None) \<rparr>
     = Responded r"
    by (simp add: snd_troccoRequest)
  then show "fst (troccoRequest fetch api_key log url options) =
        (if 200 \<le> status r \<and> status r \<le> 299
         then (case json r of None \<Rightarrow> Inl SyntaxError | Some v \<Rightarrow> Inr v)
         else Inl (Error (''TROCCO API request failed: '' @ show_nat (status r))))"
    by (simp add: troccoRequest_def Let_def ok_def split: option.splits)
next
  let ?req = "\<lparr> req_url = ''https://trocco.io/api/connections/bigquery?limit=5'',
                    req_method = GET, req_headers = request_headers api_key, req_body = None \<rparr>"
  assume r: "fetch log ?req = Responded \<lparr> status = 500, json = j \<rparr>"
  have parse: "parse ListConnectionsInputSchema (Obj [(''connectionType'', Str ''bigquery'')])
      = Inr \<lparr> connectionType = ''bigquery'' \<rparr>"
    by (simp add: parse_def ap_def lookup_def connectionTypes_def)
  have tr: "troccoRequest fetch api_key log ''https://trocco.io/api/connections/bigquery?limit=5'' no_options
      = (Inl (Error ''TROCCO API request failed: 500''), log @ [?req])"
    using r by (simp add: troccoRequest_def no_options_def Let_def ok_def show_nat_500)
  have url: "''https://trocco.io/api/connections/'' @ ''bigquery'' @ ''?''
       @ URLSearchParams_toString (nextParams no_params Null)
     = ''https://trocco.io/api/connections/bigquery?limit=5''"
    by (simp add: nextParams_def no_params_def object_spread_def limit_query)
  have "withPagination fetch api_key log (''https://trocco.io/api/connections/'' @ ''bigquery'') no_params no_options
      = Some (Inl (Error ''TROCCO API request failed: 500''), log @ [?req])"
    unfolding withPagination_def
    by (subst pagination_loop.simps) (simp only: Let_def append_assoc url tr prod.case sum.case)
  then show "call_tool fetch api_key log
        \<lparr> tool_name = ''list_connections'', arguments = Obj [(''connectionType'', Str ''bigquery'')] \<rparr>
      = Some (Inl (Error ''TROCCO API request failed: 500''), log @ [?req])"
    by (simp add: call_tool_def parse listConnections_def del: append.simps)
qed

theorem troccoRequest_status_outcome_witness:
  "(scripted [Responded \<lparr> status = 404, json = Some Null \<rparr>] []
       (last (snd (troccoRequest (scripted [Responded \<lparr> status = 404, json = Some Null \<rparr>])
                     None [] ''u'' no_options)))
      = Responded \<lparr> status = 404, json = Some Null \<rparr>
    \<and> fst (troccoRequest (scripted [Responded \<lparr> status = 404, json = Some Null \<rparr>])
               None [] ''u'' no_options)
      = Inl (Error ''TROCCO API request failed: 404''))
   \<and> (scripted [Responded \<lparr> status = 500, json = None \<rparr>] []
         \<lparr> req_url = ''https://trocco.io/api/connections/bigquery?limit=5'',
           req_method = GET, req_headers = request_headers None, req_body = None \<rparr>
        = Responded \<lparr> status = 500, json = None \<rparr>
      \<and> call_tool (scripted [Responded \<lparr> status = 500, json = None \<rparr>]) None []
          \<lparr> tool_name = ''list_connections'', arguments = Obj [(''connectionType'', Str ''bigquery'')] \<rparr>
        = Some (Inl (Error ''TROCCO API request failed: 500''),
                [\<lparr> req_url = ''https://trocco.io/api/connections/bigquery?limit=5'',
                   req_method = GET, req_headers = request_headers None, req_body = None \<rparr>]))"
proof -
  let ?f = "scripted [Responded \<lparr> status = 404, json = Some Null \<rparr>]"
  let ?g = "scripted [Responded \<lparr> status = 500, json = None \<rparr>]"
  have h1: "?f [] (last (snd (troccoRequest ?f None [] ''u'' no_options)))
      = Responded \<lparr> status = 404, json = Some Null \<rparr>"
    by (simp add: scripted_def)
  have h2: "?g [] \<lparr> req_url = ''https://trocco.io/api/connections/bigquery?limit=5'',
           req_method = GET, req_headers = request_headers None, req_body = None \<rparr>
        = Responded \<lparr> status = 500, json = None \<rparr>"
    by (simp add: scripted_def)
  from h1 troccoRequest_status_outcome
         [of ?f "[]" None "''u''" no_options "\<lparr> status = 404, json = Some Null \<rparr>"]
  have c1: "fst (troccoRequest ?f None [] ''u'' no_options)
      = Inl (Error ''TROCCO API request failed: 404'')"
    by (simp add: show_nat_404)
  from h2 troccoRequest_status_outcome [of ?g "[]" None _ _ _ None]
  have c2: "call_tool ?g None []
          \<lparr> tool_name = ''list_connections'', arguments = Obj [(''connectionType'', Str ''bigquery'')] \<rparr>
        = Some (Inl (Error ''TROCCO API request failed: 500''),
                [\<lparr> req_url = ''https://trocco.io/api/connections/bigquery?limit=5'',
                   req_method = GET, req_headers = request_headers None, req_body = None \<rparr>])"
    by simp
  from h1 c1 h2 c2 show ?thesis by blast
qed

section \<open>The HTTP client wrapper: the request body\<close>

text \<open>
  C9, as stated, fails: the wrapper tests the body for truthiness, so a body of
  \<open>0\<close> (as of \<open>false\<close>, \<open>null\<close> or the empty string) is a value that is
  given, has the JSON serialization \<open>0\<close>, and is sent as no body at all.
\<close>

theorem troccoRequest_body_counterexample:
  "truthy (Num 0) = False
   \<and> JSON_stringify (Num 0) = Some ''0''
   \<and> map req_body (snd (troccoRequest (scripted []) None [] ''u''
          \<lparr> opt_method = Some POST, body = Num 0 \<rparr>)) = [None]"
  by (simp add: snd_troccoRequest JSON_stringify_def show_int_0)

text \<open>
  C9, amended. When the body value is truthy, the body of the outgoing request is
  the JSON serialization of that value (which exists); when no body value is given,
  the outgoing request has no body.
\<close>

theorem troccoRequest_body:
  "(truthy (body options) \<longrightarrow>
      (\<exists>s. JSON_stringify (body options) = Some s
         \<and> map req_body (snd (troccoRequest fetch api_key log url options))
             = map req_body log @ [Some s]))
   \<and> map req_body (snd (troccoRequest fetch api_key log url (options \<lparr> body := Undefined \<rparr>)))
       = map req_body log @ [None]"
  using JSON_stringify_truthy [of "body options"]
  by (auto simp add: snd_troccoRequest)

theorem troccoRequest_body_witness:
  "truthy (body \<lparr> opt_method = Some POST, body = Obj [(''a'', Num 1), (''b'', Undefined)] \<rparr>)
   \<and> JSON_stringify (Obj [(''a'', Num 1), (''b'', Undefined)]) = Some ''{\"a\":1}''
   \<and> map req_body (snd (troccoRequest (scripted []) None [] ''u''
          \<lparr> opt_method = Some POST, body = Obj [(''a'', Num 1), (''b'', Undefined)] \<rparr>))
       = [Some ''{\"a\":1}'']
   \<and> map req_body (snd (troccoRequest (scripted []) None [] ''u''
          \<lparr> opt_method = Some POST, body = Undefined \<rparr>))
       = [None]"
  using troccoRequest_body [of "\<lparr> opt_method = Some POST, body = Obj [(''a'', Num 1), (''b'', Undefined)] \<rparr>"
      "scripted []" None "[]" "''u''"]
  by (simp add: JSON_stringify_def wrap_def quote_def escape_char_def show_int_1)

section \<open>Dispatch: unknown tools\<close>

text \<open>
  C7, as stated, fails: the arguments are checked before the name, so an invocation
  of an unknown tool that carries no arguments fails with \<open>Arguments are required\<close>,
  an error that does not name the tool.
\<close>

theorem call_tool_unknown_counterexample:
  "''no_such_tool'' \<notin> {''list_connections'', ''create_datamart_definition''}
   \<and> call_tool (scripted []) None [] \<lparr> tool_name = ''no_such_tool'', arguments = Undefined \<rparr>
       = Some (Inl (Error ''Arguments are required''), [])
   \<and> Error ''Arguments are required'' \<noteq> Error (''Unknown tool name: '' @ ''no_such_tool'')"
  by (simp add: call_tool_def)

text \<open>
  C7, amended. For every tool invocation whose name is neither \<open>list_connections\<close>
  nor \<open>create_datamart_definition\<close>, the dispatch fails and makes no network
  call: with the unknown-tool error that names the requested tool when the
  invocation carries arguments, with \<open>Arguments are required\<close> when it carries none.
\<close>

theorem call_tool_unknown:
  "tool_name params \<notin> {''list_connections'', ''create_datamart_definition''} \<Longrightarrow>
   call_tool fetch api_key log params =
     Some (Inl (Error (if truthy (arguments params) then ''Unknown tool name: '' @ tool_name params
                       else ''Arguments are required'')), log)"
  by (simp add: call_tool_def)


theorem call_tool_unknown_witness:
  "''no_such_tool'' \<notin> {''list_connections'', ''create_datamart_definition''}
   \<and> call_tool (scripted []) None [] \<lparr> tool_name = ''no_such_tool'', arguments = Obj [] \<rparr>
       = Some (Inl (Error ''Unknown tool name: no_such_tool''), [])"
  using call_tool_unknown [of "\<lparr> tool_name = ''no_such_tool'', arguments = Obj [] \<rparr>" "scripted []" None "[]"]
  by simp

section \<open>Validation before the network\<close>

text \<open>
  C6. An invocation of \<open>list_connections\<close> whose \<open>connectionType\<close> is not
  one of the nine strings of the enumeration (another string, a value that is not a
  string, or no value) fails with a validation error whose one issue names the field
  \<open>connectionType\<close>, and no call of \<open>fetch\<close> is made: the list of calls is
  the one before the invocation.
\<close>

theorem list_connections_rejects:
  assumes "lookup fs ''connectionType'' \<notin> Str ` {''bigquery'', ''gcs'', ''google_spreadsheet'',
     ''snowflake'', ''mysql'', ''s3'', ''salesforce'', ''postgresql'', ''google_analytics4''}"
  shows "\<exists>code. call_tool fetch api_key log \<lparr> tool_name = ''list_connections'', arguments = Obj fs \<rparr>
     = Some (Inl (ZodError [Issue [''connectionType''] code]), log)"
proof -
  have "\<exists>code. z_enum connectionTypes [''connectionType''] (lookup fs ''connectionType'')
      = Inl [Issue [''connectionType''] code]"
    using assms by (cases "lookup fs ''connectionType''") (auto simp add: connectionTypes_def)
  then show ?thesis
    by (auto simp add: call_tool_def parse_def ap_def)
qed


theorem list_connections_rejects_witness:
  "lookup [(''connectionType'', Str ''oracle'')] ''connectionType'' \<notin> Str ` {''bigquery'', ''gcs'',
     ''google_spreadsheet'', ''snowflake'', ''mysql'', ''s3'', ''salesforce'', ''postgresql'',
     ''google_analytics4''}
   \<and> (\<exists>code. call_tool (scripted []) None []
        \<lparr> tool_name = ''list_connections'', arguments = Obj [(''connectionType'', Str ''oracle'')] \<rparr>
     = Some (Inl (ZodError [Issue [''connectionType''] code]), []))"
proof -
  have h: "lookup [(''connectionType'', Str ''oracle'')] ''connectionType'' \<notin> Str ` {''bigquery'', ''gcs'',
     ''google_spreadsheet'', ''snowflake'', ''mysql'', ''s3'', ''salesforce'', ''postgresql'',
     ''google_analytics4''}"
    by (simp add: lookup_def)
  from h list_connections_rejects [OF h, of "scripted []" None "[]"]
  show ?thesis by (rule conjI)
qed

text \<open>The one call of \<open>fetch\<close> that \<open>createDatamartDefinition\<close> makes.\<close>

lemma snd_createDatamartDefinition:
  "snd (createDatamartDefinition fetch api_key log input) =
     snd (troccoRequest fetch api_key log ''https://trocco.io/api/datamart_definitions''
            (createDatamartDefinition_options input))"
  by (simp add: createDatamartDefinition_def Let_def split: prod.splits sum.splits)

text \<open>
  C8. Arguments for \<open>create_datamart_definition\<close> with a non-empty name, the
  data warehouse type \<open>bigquery\<close>, a description that is a string or absent, a
  boolean concurrency flag and no \<open>datamartBigqueryOption\<close> pass the schema (the
  parsed input has no option block), and the invocation makes the POST request to
  \<open>/datamart_definitions\<close>, with a body.
\<close>

theorem create_without_option_accepted:
  assumes "lookup fs ''name'' = Str n" and "n \<noteq> []"
    and "lookup fs ''dataWarehouseType'' = Str ''bigquery''"
    and "lookup fs ''description'' = (case d of None \<Rightarrow> Undefined | Some s \<Rightarrow> Str s)"
    and "lookup fs ''isRunnableConcurrently'' = Bool r"
    and "lookup fs ''datamartBigqueryOption'' = Undefined"
  shows "parse CreateDatamartDefinitionInputSchema (Obj fs) =
           Inr \<lparr> name = n, dataWarehouseType = ''bigquery'', description = d,
                 isRunnableConcurrently = r, datamartBigqueryOption = None \<rparr>
         \<and> (\<exists>res payload. call_tool fetch api_key log
                \<lparr> tool_name = ''create_datamart_definition'', arguments = Obj fs \<rparr>
              = Some (res, log @ [\<lparr> req_url = ''https://trocco.io/api/datamart_definitions'',
                                    req_method = POST, req_headers = request_headers api_key,
                                    req_body = Some payload \<rparr>]))"
proof -
  let ?input = "\<lparr> name = n, dataWarehouseType = ''bigquery'', description = d,
                 isRunnableConcurrently = r, datamartBigqueryOption = None \<rparr>"
  have d: "z_optional z_string [''description''] (lookup fs ''description'') = Inr d"
    by (cases d) (simp_all add: assms)
  have p: "parse CreateDatamartDefinitionInputSchema (Obj fs) = Inr ?input"
    using assms(2) by (simp add: parse_def ap_def assms(1,3,5,6) d Suc_le_eq)
  have b: "truthy (body (createDatamartDefinition_options ?input))"
    by (simp add: createDatamartDefinition_options_def)
  from JSON_stringify_truthy [OF b] obtain payload
    where t: "JSON_stringify (body (createDatamartDefinition_options ?input)) = Some payload" ..
  have s: "snd (createDatamartDefinition fetch api_key log ?input) =
      log @ [\<lparr> req_url = ''https://trocco.io/api/datamart_definitions'',
                                    req_method = POST, req_headers = request_headers api_key,
                                    req_body = Some payload \<rparr>]"
    unfolding snd_createDatamartDefinition snd_troccoRequest
    using b t by (simp add: createDatamartDefinition_options_def)
  have "\<exists>res. call_tool fetch api_key log
                \<lparr> tool_name = ''create_datamart_definition'', arguments = Obj fs \<rparr>
     = Some (res, snd (createDatamartDefinition fetch api_key log ?input))"
    by (simp add: call_tool_def p split: prod.splits sum.splits)
  with p s show ?thesis by metis
qed

theorem create_without_option_accepted_witness:
  "lookup [(''name'', Str ''sales''), (''dataWarehouseType'', Str ''bigquery''),
           (''isRunnableConcurrently'', Bool False)] ''name'' = Str ''sales''
   \<and> ''sales'' \<noteq> []
   \<and> lookup [(''name'', Str ''sales''), (''dataWarehouseType'', Str ''bigquery''),
           (''isRunnableConcurrently'', Bool False)] ''dataWarehouseType'' = Str ''bigquery''
   \<and> lookup [(''name'', Str ''sales''), (''dataWarehouseType'', Str ''bigquery''),
           (''isRunnableConcurrently'', Bool False)] ''description'' = Undefined
   \<and> lookup [(''name'', Str ''sales''), (''dataWarehouseType'', Str ''bigquery''),
           (''isRunnableConcurrently'', Bool False)] ''isRunnableConcurrently'' = Bool False
   \<and> lookup [(''name'', Str ''sales''), (''dataWarehouseType'', Str ''bigquery''),
           (''isRunnableConcurrently'', Bool False)] ''datamartBigqueryOption'' = Undefined
   \<and> parse CreateDatamartDefinitionInputSchema
         (Obj [(''name'', Str ''sales''), (''dataWarehouseType'', Str ''bigquery''),
               (''isRunnableConcurrently'', Bool False)])
       = Inr \<lparr> name = ''sales'', dataWarehouseType = ''bigquery'', description = None,
               isRunnableConcurrently = False, datamartBigqueryOption = None \<rparr>
   \<and> (\<exists>res payload. call_tool (scripted []) None []
          \<lparr> tool_name = ''create_datamart_definition'',
            arguments = Obj [(''name'', Str ''sales''), (''dataWarehouseType'', Str ''bigquery''),
                             (''isRunnableConcurrently'', Bool False)] \<rparr>
        = Some (res, [] @ [\<lparr> req_url = ''https://trocco.io/api/datamart_definitions'',
                              req_method = POST, req_headers = request_headers None,
                              req_body = Some payload \<rparr>]))"
proof -
  let ?fs = "[(''name'', Str ''sales''), (''dataWarehouseType'', Str ''bigquery''),
              (''isRunnableConcurrently'', Bool False)]"
  have h1: "lookup ?fs ''name'' = Str ''sales''"
    and h2: "''sales'' \<noteq> []"
    and h3: "lookup ?fs ''dataWarehouseType'' = Str ''bigquery''"
    and h4: "lookup ?fs ''description'' = (case None of None \<Rightarrow> Undefined | Some s \<Rightarrow> Str s)"
    and h5: "lookup ?fs ''isRunnableConcurrently'' = Bool False"
    and h6: "lookup ?fs ''datamartBigqueryOption'' = Undefined"
    by (simp_all add: lookup_def)
  from create_without_option_accepted [OF h1 h2 h3 h4 h5 h6, of "scripted []" None "[]"] h1 h2 h3 h4 h5 h6
  show ?thesis by simp
qed

section \<open>The pagination aggregator: pages and requests\<close>

text \<open>
  One turn of the loop on a page: the items are appended; the loop returns when the
  page has no cursor and goes on with the cursor otherwise.
\<close>

lemma nextParams_cursor:
  "nextParams params (cursor_value c) = page_query params c"
  by (cases c) (simp_all add: nextParams_def object_spread_def cursor_value_def page_query_def)

lemma page_query_limit: "map_of (page_query params c) ''limit'' = Some ''5''"
  by (cases c) (simp_all add: page_query_def update_conv')

lemma page_query_cursor:
  "map_of (page_query params c) ''cursor'' = (case c of None \<Rightarrow> map_of params ''cursor'' | Some s \<Rightarrow> Some s)"
  by (cases c) (simp_all add: page_query_def update_conv')

lemma sent_request_cursor:
  "sent_request api_key url params options (cursor_value c) = page_request api_key url params options c"
  by (simp add: sent_request_def page_request_def nextParams_cursor)

lemma troccoRequest_page:
  assumes "fetch log (page_request api_key url params options cur) = page_response its c"
  shows "troccoRequest fetch api_key log
           (url @ ''?'' @ URLSearchParams_toString (nextParams params (cursor_value cur))) options =
         (Inr (Obj [(''items'', Arr its), (''next_cursor'', cursor_value c)]),
          log @ [page_request api_key url params options cur])"
proof -
  have req: "\<lparr> req_url = url @ ''?'' @ URLSearchParams_toString (nextParams params (cursor_value cur)),
       req_method = (case opt_method options of None \<Rightarrow> GET | Some m \<Rightarrow> m),
       req_headers = request_headers api_key,
       req_body = (if truthy (body options) then JSON_stringify (body options) else None) \<rparr>
     = page_request api_key url params options cur"
    by (simp add: page_request_def nextParams_cursor)
  show ?thesis
    unfolding troccoRequest_def Let_def req assms page_response_def
    by (simp add: ok_def cursor_value_def)
qed

lemma loop_step:
  assumes "fetch log (page_request api_key url params options cur) = page_response its c"
  shows "pagination_loop fetch api_key log url params options items (cursor_value cur) =
     (case c of
        None \<Rightarrow> Some (Inr (items @ its), log @ [page_request api_key url params options cur])
      | Some s \<Rightarrow> pagination_loop fetch api_key (log @ [page_request api_key url params options cur])
                   url params options (items @ its) (cursor_value (Some s)))"
proof -
  note tr = troccoRequest_page [of fetch log api_key url params options cur its c, OF assms]
  show ?thesis
    by (subst pagination_loop.simps, unfold Let_def tr)
       (cases c; simp add: lookup_def cursor_value_def)
qed

lemma loop_pages:
  assumes "serves fetch log
     (zip (map (page_request api_key url params options) (cur # map Some (map snd pages)))
          (page_responses pages final))"
  shows "pagination_loop fetch api_key log url params options items (cursor_value cur) =
     Some (Inr (items @ concat (map fst pages) @ final),
           log @ map (page_request api_key url params options) (cur # map Some (map snd pages)))"
  using assms
proof (induction pages arbitrary: log items cur)
  case Nil
  then show ?case
    by (simp add: page_responses_def loop_step [of fetch log api_key url params options cur final None])
next
  case (Cons p pages)
  from Cons.prems have first:
    "fetch log (page_request api_key url params options cur) = page_response (fst p) (Some (snd p))"
    and rest: "serves fetch (log @ [page_request api_key url params options cur])
     (zip (map (page_request api_key url params options) (Some (snd p) # map Some (map snd pages)))
          (page_responses pages final))"
    by (simp_all add: page_responses_def)
  show ?case
    by (simp add: loop_step [of fetch log api_key url params options cur "fst p" "Some (snd p)", OF first]
        Cons.IH [OF rest])
qed

lemma loop_prefix:
  assumes "pagination_loop fetch api_key log url params options items cur = Some y"
  shows "\<exists>rest. snd y = log @ sent_request api_key url params options cur # rest"
proof (rule pagination_loop.raw_induct
    [where P = "\<lambda>fetch api_key log url params options items cur y.
       \<exists>rest. snd y = log @ sent_request api_key url params options cur # rest", OF _ assms])
  fix loop :: "fetch \<Rightarrow> string option \<Rightarrow> request list \<Rightarrow> string \<Rightarrow> (string \<times> string) list
     \<Rightarrow> RequestOptions \<Rightarrow> jsval list \<Rightarrow> jsval \<Rightarrow> ((error + jsval list) \<times> request list) option"
  fix fetch api_key log url params options items nextCursor y
  assume IH: "\<And>fetch api_key log url params options items cur y.
     loop fetch api_key log url params options items cur = Some y \<Longrightarrow>
     \<exists>rest. snd y = log @ sent_request api_key url params options cur # rest"
  assume body: "(let nextUrl = url @ ''?'' @ URLSearchParams_toString (nextParams params nextCursor) in
      case troccoRequest fetch api_key log nextUrl options of
        (Inl e, log') \<Rightarrow> Some (Inl e, log')
      | (Inr data, log') \<Rightarrow>
          (case get_prop data ''items'' of
             Inl e \<Rightarrow> Some (Inl e, log')
           | Inr its \<Rightarrow>
               (case spread_elements its of
                  Inl e \<Rightarrow> Some (Inl e, log')
                | Inr xs \<Rightarrow>
                    (case get_prop data ''next_cursor'' of
                       Inl e \<Rightarrow> Some (Inl e, log')
                     | Inr c \<Rightarrow>
                         if nullish c then Some (Inr (items @ xs), log')
                         else loop fetch api_key log' url params options (items @ xs) c)))) = Some y"
  obtain r log1 where eq: "troccoRequest fetch api_key log
       (url @ ''?'' @ URLSearchParams_toString (nextParams params nextCursor)) options = (r, log1)"
    by (cases "troccoRequest fetch api_key log
       (url @ ''?'' @ URLSearchParams_toString (nextParams params nextCursor)) options")
  from arg_cong [OF eq, of snd]
  have log1: "log1 = log @ [sent_request api_key url params options nextCursor]"
    by (simp add: snd_troccoRequest sent_request_def)
  from body show "\<exists>rest. snd y = log @ sent_request api_key url params options nextCursor # rest"
    unfolding Let_def eq
    by (auto simp add: log1 dest!: IH split: sum.splits if_splits)
qed

lemma loop_continues:
  assumes "serves fetch log
     (zip (map (page_request api_key url params options) (cur # map Some (map snd pages)))
          (map (\<lambda>p. page_response (fst p) (Some (snd p))) pages))"
    and "pagination_loop fetch api_key log url params options items (cursor_value cur) = Some y"
  shows "\<exists>rest. snd y = log @ map (page_request api_key url params options)
                                  (cur # map Some (map snd pages)) @ rest"
  using assms
proof (induction pages arbitrary: log items cur)
  case Nil
  from loop_prefix [OF Nil.prems(2)] show ?case
    by (simp add: sent_request_cursor)
next
  case (Cons p pages)
  from Cons.prems(1) have first:
    "fetch log (page_request api_key url params options cur) = page_response (fst p) (Some (snd p))"
    and rest: "serves fetch (log @ [page_request api_key url params options cur])
     (zip (map (page_request api_key url params options) (Some (snd p) # map Some (map snd pages)))
          (map (\<lambda>p. page_response (fst p) (Some (snd p))) pages))"
    by simp_all
  from Cons.prems(2)
  have "pagination_loop fetch api_key (log @ [page_request api_key url params options cur])
          url params options (items @ fst p) (cursor_value (Some (snd p))) = Some y"
    by (simp add: loop_step [of fetch log api_key url params options cur "fst p" "Some (snd p)", OF first])
  from Cons.IH [OF rest this] show ?case by simp
qed

lemma loop_endless:
  assumes "pagination_loop fetch api_key log url params options items cur = Some y"
  shows "fetch \<noteq> (\<lambda>log req. page_response its (Some c))"
proof (rule pagination_loop.raw_induct
    [where P = "\<lambda>fetch api_key log url params options items cur y.
       fetch \<noteq> (\<lambda>log req. page_response its (Some c))", OF _ assms])
  fix loop :: "fetch \<Rightarrow> string option \<Rightarrow> request list \<Rightarrow> string \<Rightarrow> (string \<times> string) list
     \<Rightarrow> RequestOptions \<Rightarrow> jsval list \<Rightarrow> jsval \<Rightarrow> ((error + jsval list) \<times> request list) option"
  fix fetch api_key log url params options items nextCursor y
  assume IH: "\<And>fetch api_key log url params options items cur y.
     loop fetch api_key log url params options items cur = Some y \<Longrightarrow>
     fetch \<noteq> (\<lambda>log req. page_response its (Some c))"
  assume body: "(let nextUrl = url @ ''?'' @ URLSearchParams_toString (nextParams params nextCursor) in
      case troccoRequest fetch api_key log nextUrl options of
        (Inl e, log') \<Rightarrow> Some (Inl e, log')
      | (Inr data, log') \<Rightarrow>
          (case get_prop data ''items'' of
             Inl e \<Rightarrow> Some (Inl e, log')
           | Inr its \<Rightarrow>
               (case spread_elements its of
                  Inl e \<Rightarrow> Some (Inl e, log')
                | Inr xs \<Rightarrow>
                    (case get_prop data ''next_cursor'' of
                       Inl e \<Rightarrow> Some (Inl e, log')
                     | Inr c \<Rightarrow>
                         if nullish c then Some (Inr (items @ xs), log')
                         else loop fetch api_key log' url params options (items @ xs) c)))) = Some y"
  show "fetch \<noteq> (\<lambda>log req. page_response its (Some c))"
  proof
    assume f: "fetch = (\<lambda>log req. page_response its (Some c))"
    have "\<exists>log1. troccoRequest fetch api_key log
        (url @ ''?'' @ URLSearchParams_toString (nextParams params nextCursor)) options
      = (Inr (Obj [(''items'', Arr its), (''next_cursor'', Str c)]), log1)"
      by (simp add: troccoRequest_def Let_def f page_response_def ok_def)
    then obtain log1 where "troccoRequest fetch api_key log
        (url @ ''?'' @ URLSearchParams_toString (nextParams params nextCursor)) options
      = (Inr (Obj [(''items'', Arr its), (''next_cursor'', Str c)]), log1)" ..
    with body have "loop fetch api_key log1 url params options (items @ its) (Str c) = Some y"
      by (simp add: Let_def lookup_def)
    from IH [OF this] f show False by simp
  qed
qed

lemma urls_default:
  "map req_url (expected_requests api_key url [] options cursors)
     = (url @ ''?limit=5'') # map (\<lambda>c. url @ ''?limit=5&cursor='' @ urlencode c) cursors"
  by (simp add: expected_requests_def page_request_def page_query_def URLSearchParams_toString_def
      comp_def urlencode_def urlencode_char_def)

lemma urlencode_c1: "urlencode ''c1'' = ''c1''"
  by code_simp

lemma urlencode_c2: "urlencode ''c 2'' = ''c+2''"
  by code_simp

text \<open>
  C1. When the service answers the requests of the aggregator with \<open>N\<close> pages, the
  first \<open>N - 1\<close> with cursors \<open>c1, ..., cN-1\<close> and the last with a \<open>null\<close>
  cursor, \<open>withPagination\<close> returns the items of all pages, concatenated in page
  order, after exactly \<open>N\<close> requests. The query of every request has \<open>limit\<close>
  at \<open>5\<close>, whatever the base parameters say; the query of a request after a page
  has \<open>cursor\<close> at the cursor of that page, and the query of the first request
  has no cursor but one of the base parameters. With no base parameters (the call
  the server makes) the URLs are \<open>url?limit=5\<close> and \<open>url?limit=5&cursor=c\<close>.
  For \<open>N = 1\<close>: one request, and the items of that page as they are.
\<close>

theorem withPagination_complete:
  "(serves fetch log (zip (expected_requests api_key url params options (map snd pages))
                          (page_responses pages final)) \<longrightarrow>
      withPagination fetch api_key log url params options
        = Some (Inr (concat (map fst pages) @ final),
                log @ expected_requests api_key url params options (map snd pages)))
   \<and> length (expected_requests api_key url params options (map snd pages)) = length pages + 1
   \<and> map_of (page_query params cursor) ''limit'' = Some ''5''
   \<and> map_of (page_query params (Some c)) ''cursor'' = Some c
   \<and> map_of (page_query params None) ''cursor'' = map_of params ''cursor''
   \<and> map req_url (expected_requests api_key url [] options (map snd pages))
       = (url @ ''?limit=5'') # map (\<lambda>c. url @ ''?limit=5&cursor='' @ urlencode c) (map snd pages)
   \<and> (fetch log (page_request api_key url params options None) = page_response final None \<longrightarrow>
        withPagination fetch api_key log url params options
          = Some (Inr final, log @ [page_request api_key url params options None]))"
proof (intro conjI impI)
  assume "serves fetch log (zip (expected_requests api_key url params options (map snd pages))
                          (page_responses pages final))"
  then show "withPagination fetch api_key log url params options
        = Some (Inr (concat (map fst pages) @ final),
                log @ expected_requests api_key url params options (map snd pages))"
    unfolding withPagination_def expected_requests_def
    using loop_pages [of fetch log api_key url params options None pages final "[]"]
    by (simp add: cursor_value_def)
next
  show "length (expected_requests api_key url params options (map snd pages)) = length pages + 1"
    by (simp add: expected_requests_def)
next
  show "map_of (page_query params cursor) ''limit'' = Some ''5''"
    by (rule page_query_limit)
next
  show "map_of (page_query params (Some c)) ''cursor'' = Some c"
    by (simp add: page_query_cursor)
next
  show "map_of (page_query params None) ''cursor'' = map_of params ''cursor''"
    by (simp add: page_query_cursor)
next
  show "map req_url (expected_requests api_key url [] options (map snd pages))
       = (url @ ''?limit=5'') # map (\<lambda>c. url @ ''?limit=5&cursor='' @ urlencode c) (map snd pages)"
    by (rule urls_default)
next
  assume "fetch log (page_request api_key url params options None) = page_response final None"
  then show "withPagination fetch api_key log url params options
          = Some (Inr final, log @ [page_request api_key url params options None])"
    unfolding withPagination_def
    using loop_step [of fetch log api_key url params options None final None "[]"]
    by (simp add: cursor_value_def)
qed

theorem withPagination_complete_witness:
  "serves (scripted (page_responses [([Num 1], ''c1''), ([], ''c 2'')] [Num 2, Num 3])) []
      (zip (expected_requests (Some ''k'') ''u'' [] no_options (map snd [([Num 1], ''c1''), ([], ''c 2'')]))
           (page_responses [([Num 1], ''c1''), ([], ''c 2'')] [Num 2, Num 3]))
   \<and> withPagination (scripted (page_responses [([Num 1], ''c1''), ([], ''c 2'')] [Num 2, Num 3]))
        (Some ''k'') [] ''u'' [] no_options
       = Some (Inr [Num 1, Num 2, Num 3], expected_requests (Some ''k'') ''u'' [] no_options [''c1'', ''c 2''])
   \<and> map req_url (expected_requests (Some ''k'') ''u'' [] no_options [''c1'', ''c 2''])
       = [''u?limit=5'', ''u?limit=5&cursor=c1'', ''u?limit=5&cursor=c+2'']
   \<and> scripted [page_response [Num 7] None] [] (page_request None ''u'' [] no_options None)
       = page_response [Num 7] None
   \<and> withPagination (scripted [page_response [Num 7] None]) None [] ''u'' [] no_options
       = Some (Inr [Num 7], [page_request None ''u'' [] no_options None])"
proof -
  let ?pages = "[([Num 1], ''c1''), ([], ''c 2'')] :: (jsval list \<times> string) list"
  let ?f = "scripted (page_responses ?pages [Num 2, Num 3])"
  let ?g = "scripted [page_response [Num 7] None]"
  have h1: "serves ?f [] (zip (expected_requests (Some ''k'') ''u'' [] no_options (map snd ?pages))
           (page_responses ?pages [Num 2, Num 3]))"
    by (simp add: expected_requests_def page_responses_def scripted_def)
  have h2: "?g [] (page_request None ''u'' [] no_options None) = page_response [Num 7] None"
    by (simp add: scripted_def)
  note t1 = withPagination_complete [of ?f "[]" "Some ''k''" "''u''" "[]" no_options ?pages "[Num 2, Num 3]"]
  note t2 = withPagination_complete [of ?g "[]" None "''u''" "[]" no_options "[]" "[Num 7]"]
  from h1 t1 have c1: "withPagination ?f (Some ''k'') [] ''u'' [] no_options
       = Some (Inr [Num 1, Num 2, Num 3], expected_requests (Some ''k'') ''u'' [] no_options [''c1'', ''c 2''])"
    by simp
  from t1 have c2: "map req_url (expected_requests (Some ''k'') ''u'' [] no_options [''c1'', ''c 2''])
       = [''u?limit=5'', ''u?limit=5&cursor=c1'', ''u?limit=5&cursor=c+2'']"
    by (simp add: urlencode_c1 urlencode_c2)
  from h2 t2 have c3: "withPagination ?g None [] ''u'' [] no_options
       = Some (Inr [Num 7], [page_request None ''u'' [] no_options None])"
    by simp
  from h1 c1 c2 h2 c3 show ?thesis by simp
qed

text \<open>
  C2. Whenever \<open>withPagination\<close> returns, it has made at least one request, the
  first being the one without cursor. After a page that carries a cursor the run is
  the loop continued from that cursor, whatever the items of the page are (an empty
  list too), and as long as the pages carry cursors any result has the request for
  the next page behind it. When the service answers with pages of which the last
  carries a \<open>null\<close> cursor, \<open>withPagination\<close> returns, right after that page:
  the requests are one per page. When every page of the service carries a cursor,
  \<open>withPagination\<close> never returns, even if the pages have no items.
\<close>

theorem withPagination_termination:
  "(withPagination fetch api_key log url params options = Some (res, log') \<longrightarrow>
      (\<exists>rest. log' = log @ page_request api_key url params options None # rest))
   \<and> (fetch log (page_request api_key url params options None) = page_response its (Some c) \<longrightarrow>
        withPagination fetch api_key log url params options
          = pagination_loop fetch api_key (log @ [page_request api_key url params options None])
              url params options its (Str c))
   \<and> (serves fetch log (zip (expected_requests api_key url params options (map snd pages))
                            (map (\<lambda>p. page_response (fst p) (Some (snd p))) pages)) \<longrightarrow>
        withPagination fetch api_key log url params options = Some (res, log') \<longrightarrow>
        (\<exists>rest. log' = log @ expected_requests api_key url params options (map snd pages) @ rest))
   \<and> (serves fetch log (zip (expected_requests api_key url params options (map snd pages))
                            (page_responses pages final)) \<longrightarrow>
        (\<exists>items. withPagination fetch api_key log url params options
           = Some (Inr items, log @ expected_requests api_key url params options (map snd pages)))
        \<and> length (expected_requests api_key url params options (map snd pages)) = Suc (length pages))
   \<and> withPagination (\<lambda>log req. page_response its (Some c)) api_key log url params options = None"
proof (intro conjI impI)
  assume "withPagination fetch api_key log url params options = Some (res, log')"
  then show "\<exists>rest. log' = log @ page_request api_key url params options None # rest"
    unfolding withPagination_def
    using loop_prefix [of fetch api_key log url params options "[]" Null "(res, log')"]
      sent_request_cursor [of api_key url params options None]
    by (simp add: cursor_value_def)
next
  assume "fetch log (page_request api_key url params options None) = page_response its (Some c)"
  then show "withPagination fetch api_key log url params options
          = pagination_loop fetch api_key (log @ [page_request api_key url params options None])
              url params options its (Str c)"
    unfolding withPagination_def
    using loop_step [of fetch log api_key url params options None its "Some c" "[]"]
    by (simp add: cursor_value_def)
next
  assume "serves fetch log (zip (expected_requests api_key url params options (map snd pages))
                            (map (\<lambda>p. page_response (fst p) (Some (snd p))) pages))"
    and "withPagination fetch api_key log url params options = Some (res, log')"
  then show "\<exists>rest. log' = log @ expected_requests api_key url params options (map snd pages) @ rest"
    unfolding withPagination_def expected_requests_def
    using loop_continues [of fetch log api_key url params options None pages "[]" "(res, log')"]
    by (simp add: cursor_value_def)
next
  assume "serves fetch log (zip (expected_requests api_key url params options (map snd pages))
                            (page_responses pages final))"
  then show "\<exists>items. withPagination fetch api_key log url params options
           = Some (Inr items, log @ expected_requests api_key url params options (map snd pages))"
    unfolding withPagination_def expected_requests_def
    using loop_pages [of fetch log api_key url params options None pages final "[]"]
    by (simp add: cursor_value_def)
next
  show "length (expected_requests api_key url params options (map snd pages)) = Suc (length pages)"
    by (simp add: expected_requests_def)
next
  show "withPagination (\<lambda>log req. page_response its (Some c)) api_key log url params options = None"
  proof (cases "withPagination (\<lambda>log req. page_response its (Some c)) api_key log url params options")
    case None
    then show ?thesis .
  next
    case (Some y)
    then have False
      unfolding withPagination_def using loop_endless by blast
    then show ?thesis ..
  qed
qed

theorem withPagination_termination_witness:
  "serves (scripted (page_responses [([], ''c1'')] [])) []
      (zip (expected_requests None ''u'' [] no_options (map snd [([] :: jsval list, ''c1'')]))
           (page_responses [([], ''c1'')] []))
   \<and> (\<exists>items. withPagination (scripted (page_responses [([], ''c1'')] [])) None [] ''u'' [] no_options
         = Some (Inr items, expected_requests None ''u'' [] no_options [''c1''])
       \<and> (\<exists>rest. expected_requests None ''u'' [] no_options [''c1'']
                   = page_request None ''u'' [] no_options None # rest))
   \<and> scripted (page_responses [([], ''c1'')] []) [] (page_request None ''u'' [] no_options None)
       = page_response [] (Some ''c1'')
   \<and> withPagination (scripted (page_responses [([], ''c1'')] [])) None [] ''u'' [] no_options
       = pagination_loop (scripted (page_responses [([], ''c1'')] [])) None
           [page_request None ''u'' [] no_options None] ''u'' [] no_options [] (Str ''c1'')
   \<and> serves (scripted (page_responses [([], ''c1'')] [])) []
      (zip (expected_requests None ''u'' [] no_options (map snd [([] :: jsval list, ''c1'')]))
           (map (\<lambda>p. page_response (fst p) (Some (snd p))) [([], ''c1'')]))
   \<and> (\<exists>items rest. withPagination (scripted (page_responses [([], ''c1'')] [])) None [] ''u'' []
                         no_options
         = Some (Inr items, expected_requests None ''u'' [] no_options [''c1''] @ rest))"
proof -
  let ?pages = "[([], ''c1'')] :: (jsval list \<times> string) list"
  let ?f = "scripted (page_responses ?pages [])"
  have h1: "serves ?f [] (zip (expected_requests None ''u'' [] no_options (map snd ?pages))
           (page_responses ?pages []))"
    by (simp add: expected_requests_def page_responses_def scripted_def)
  have h2: "?f [] (page_request None ''u'' [] no_options None) = page_response [] (Some ''c1'')"
    by (simp add: page_responses_def scripted_def)
  note t = withPagination_termination [of ?f None "[]" "''u''" "[]" no_options _ _ "[]" "''c1''" ?pages "[]"]
  from h1 t obtain items where run: "withPagination ?f None [] ''u'' [] no_options
         = Some (Inr items, expected_requests None ''u'' [] no_options [''c1''])"
    by auto
  from run withPagination_termination [of ?f None "[]" "''u''" "[]" no_options "Inr items"
      "expected_requests None ''u'' [] no_options [''c1'']"]
  have first: "\<exists>rest. expected_requests None ''u'' [] no_options [''c1'']
                   = page_request None ''u'' [] no_options None # rest"
    by simp
  from h2 t have cont: "withPagination ?f None [] ''u'' [] no_options
       = pagination_loop ?f None [page_request None ''u'' [] no_options None] ''u'' [] no_options []
           (Str ''c1'')"
    by simp
  have h3: "serves ?f [] (zip (expected_requests None ''u'' [] no_options (map snd ?pages))
           (map (\<lambda>p. page_response (fst p) (Some (snd p))) ?pages))"
    by (simp add: expected_requests_def page_responses_def scripted_def)
  from h3 run withPagination_termination [of ?f None "[]" "''u''" "[]" no_options "Inr items"
      "expected_requests None ''u'' [] no_options [''c1'']" _ _ ?pages]
  obtain rest where more: "expected_requests None ''u'' [] no_options [''c1'']
      = expected_requests None ''u'' [] no_options [''c1''] @ rest"
    by auto
  from run more have tail: "\<exists>items rest. withPagination ?f None [] ''u'' [] no_options
         = Some (Inr items, expected_requests None ''u'' [] no_options [''c1''] @ rest)"
    by metis
  from h1 run first h2 cont h3 tail show ?thesis by blast
qed

section \<open>Listing connections: the projection\<close>

lemma map_result_project_objects:
  "map_result project_connection (map Obj records) =
     Inr (map (\<lambda>fs. Obj [(''id'', lookup fs ''id''), (''name'', lookup fs ''name''),
                         (''description'', lookup fs ''description'')]) records)"
  by (induction records) (simp_all add: project_connection_def)

lemma project_connection_keys:
  "project_connection c = Inr out \<Longrightarrow> Object_keys out = [''id'', ''name'', ''description'']"
  by (auto simp add: project_connection_def split: sum.splits)

lemma map_result_project_keys:
  "map_result project_connection cs = Inr outs \<Longrightarrow>
     \<forall>out \<in> set outs. Object_keys out = [''id'', ''name'', ''description'']"
  by (induction cs arbitrary: outs) (auto split: sum.splits dest: project_connection_keys)

text \<open>
  C4. When the aggregator returns the connection records of the service, whatever
  fields they carry, \<open>listConnections\<close> returns for each record, in order, the
  object with the keys \<open>id\<close>, \<open>name\<close> and \<open>description\<close> and the record's
  values for them; and every item of every output of \<open>listConnections\<close> has
  exactly these three keys.
\<close>

theorem listConnections_projection:
  "(withPagination fetch api_key log (''https://trocco.io/api/connections/'' @ t) []
        \<lparr> opt_method = None, body = Undefined \<rparr>
      = Some (Inr (map Obj records), log') \<longrightarrow>
    listConnections fetch api_key log \<lparr> connectionType = t \<rparr>
      = Some (Inr (map (\<lambda>fs. Obj [(''id'', lookup fs ''id''), (''name'', lookup fs ''name''),
                                  (''description'', lookup fs ''description'')]) records), log'))
   \<and> (listConnections fetch api_key log input = Some (Inr outs, log'') \<longrightarrow>
        (\<forall>out \<in> set outs. Object_keys out = [''id'', ''name'', ''description'']))"
proof (intro conjI impI)
  assume "withPagination fetch api_key log (''https://trocco.io/api/connections/'' @ t) []
        \<lparr> opt_method = None, body = Undefined \<rparr>
      = Some (Inr (map Obj records), log')"
  then show "listConnections fetch api_key log \<lparr> connectionType = t \<rparr>
      = Some (Inr (map (\<lambda>fs. Obj [(''id'', lookup fs ''id''), (''name'', lookup fs ''name''),
                                  (''description'', lookup fs ''description'')]) records), log')"
    by (simp add: listConnections_def no_params_def no_options_def map_result_project_objects)
next
  assume "listConnections fetch api_key log input = Some (Inr outs, log'')"
  then have "\<exists>cs. map_result project_connection cs = Inr outs"
    by (auto simp add: listConnections_def Let_def split: option.splits sum.splits prod.splits)
  then show "\<forall>out \<in> set outs. Object_keys out = [''id'', ''name'', ''description'']"
    using map_result_project_keys by blast
qed

theorem listConnections_projection_witness:
  "withPagination
      (scripted [page_response
         [Obj [(''id'', Str ''7''), (''name'', Str ''dwh''), (''secret'', Str ''x''),
               (''description'', Str ''main''), (''created_at'', Num 1)]] None])
      None [] (''https://trocco.io/api/connections/'' @ ''s3'') []
      \<lparr> opt_method = None, body = Undefined \<rparr>
     = Some (Inr (map Obj [[(''id'', Str ''7''), (''name'', Str ''dwh''), (''secret'', Str ''x''),
                            (''description'', Str ''main''), (''created_at'', Num 1)]]),
             [\<lparr> req_url = ''https://trocco.io/api/connections/s3?limit=5'',
                req_method = GET, req_headers = request_headers None, req_body = None \<rparr>])
   \<and> listConnections
      (scripted [page_response
         [Obj [(''id'', Str ''7''), (''name'', Str ''dwh''), (''secret'', Str ''x''),
               (''description'', Str ''main''), (''created_at'', Num 1)]] None])
      None [] \<lparr> connectionType = ''s3'' \<rparr>
     = Some (Inr [Obj [(''id'', Str ''7''), (''name'', Str ''dwh''), (''description'', Str ''main'')]],
             [\<lparr> req_url = ''https://trocco.io/api/connections/s3?limit=5'',
                req_method = GET, req_headers = request_headers None, req_body = None \<rparr>])
   \<and> map Object_keys [Obj [(''id'', Str ''7''), (''name'', Str ''dwh''), (''description'', Str ''main'')]]
     = [[''id'', ''name'', ''description'']]"
proof -
  let ?rec = "[(''id'', Str ''7''), (''name'', Str ''dwh''), (''secret'', Str ''x''),
               (''description'', Str ''main''), (''created_at'', Num 1)]"
  let ?f = "scripted [page_response [Obj ?rec] None]"
  let ?log = "[\<lparr> req_url = ''https://trocco.io/api/connections/s3?limit=5'',
                req_method = GET, req_headers = request_headers None, req_body = None \<rparr>]"
  let ?out = "[Obj [(''id'', Str ''7''), (''name'', Str ''dwh''), (''description'', Str ''main'')]]"
  have h: "withPagination ?f None [] (''https://trocco.io/api/connections/'' @ ''s3'') []
      \<lparr> opt_method = None, body = Undefined \<rparr> = Some (Inr (map Obj [?rec]), ?log)"
    unfolding withPagination_def
    by (subst pagination_loop.simps)
       (simp add: Let_def troccoRequest_def scripted_def page_response_def ok_def lookup_def
          nextParams_def object_spread_def limit_query)
  note t = listConnections_projection [of ?f None "[]" "''s3''" "[?rec]" ?log "\<lparr> connectionType = ''s3'' \<rparr>" ?out ?log]
  from h t have c: "listConnections ?f None [] \<lparr> connectionType = ''s3'' \<rparr> = Some (Inr ?out, ?log)"
    by (simp add: lookup_def)
  with t have k: "\<forall>out \<in> set ?out. Object_keys out = [''id'', ''name'', ''description'']"
    by blast
  from h c k show ?thesis by simp
qed

section \<open>Creating a definition: the renaming\<close>

lemma snake_case_names:
  "snake_case ''name'' = ''name''"
  "snake_case ''dataWarehouseType'' = ''data_warehouse_type''"
  "snake_case ''description'' = ''description''"
  "snake_case ''isRunnableConcurrently'' = ''is_runnable_concurrently''"
  "snake_case ''datamartBigqueryOption'' = ''datamart_bigquery_option''"
  "snake_case ''bigqueryConnectionId'' = ''bigquery_connection_id''"
  "snake_case ''queryMode'' = ''query_mode''"
  "snake_case ''query'' = ''query''"
  "snake_case ''destinationDataset'' = ''destination_dataset''"
  "snake_case ''destinationTable'' = ''destination_table''"
  "snake_case ''writeDisposition'' = ''write_disposition''"
  by code_simp+

lemma outbound_rename:
  assumes "description input = Some d" and "datamartBigqueryOption input = Some b"
  shows "body (createDatamartDefinition_options input)
         = rename_keys snake_case (CreateDatamartDefinitionInput_object input)"
  by (simp add: createDatamartDefinition_options_def CreateDatamartDefinitionInput_object_def
      DatamartBigqueryOption_object_def optional_chain_def assms snake_case_names)

lemma inbound_fields:
  "datamartDefinition_result (Obj fs)
     = Inr (Obj (map (\<lambda>k. (k, lookup fs k))
                  [''id'', ''name'', ''data_warehouse_type'', ''description'',
                   ''is_runnable_concurrently'', ''datamart_bigquery_option'']))"
  by (simp add: datamartDefinition_result_def)

lemma inbound_identity:
  assumes "map fst fs = [''id'', ''name'', ''data_warehouse_type'', ''description'',
                   ''is_runnable_concurrently'', ''datamart_bigquery_option'']"
  shows "datamartDefinition_result (Obj fs) = Inr (Obj fs)"
proof -
  from assms obtain v1 v2 v3 v4 v5 v6 where fs: "fs = [(''id'', v1), (''name'', v2),
     (''data_warehouse_type'', v3), (''description'', v4), (''is_runnable_concurrently'', v5),
     (''datamart_bigquery_option'', v6)]"
    by (auto simp add: map_eq_Cons_conv)
  show ?thesis
    by (simp add: inbound_fields fs lookup_def)
qed

lemma createDatamartDefinition_responded:
  assumes "fetch log \<lparr> req_url = ''https://trocco.io/api/datamart_definitions'',
                      req_method = POST, req_headers = request_headers api_key,
                      req_body = JSON_stringify (body (createDatamartDefinition_options input)) \<rparr>
             = Responded \<lparr> status = st, json = Some v \<rparr>"
    and "200 \<le> st" and "st \<le> 299"
  shows "createDatamartDefinition fetch api_key log input =
     (datamartDefinition_result v,
      log @ [\<lparr> req_url = ''https://trocco.io/api/datamart_definitions'',
                req_method = POST, req_headers = request_headers api_key,
                req_body = JSON_stringify (body (createDatamartDefinition_options input)) \<rparr>])"
proof -
  have m: "opt_method (createDatamartDefinition_options input) = Some POST"
    and t: "truthy (body (createDatamartDefinition_options input))"
    by (simp_all add: createDatamartDefinition_options_def)
  have "troccoRequest fetch api_key log ''https://trocco.io/api/datamart_definitions''
          (createDatamartDefinition_options input)
     = (Inr v, log @ [\<lparr> req_url = ''https://trocco.io/api/datamart_definitions'',
                req_method = POST, req_headers = request_headers api_key,
                req_body = JSON_stringify (body (createDatamartDefinition_options input)) \<rparr>])"
    using assms t by (simp add: troccoRequest_def Let_def m ok_def)
  then show ?thesis
    by (simp add: createDatamartDefinition_def Let_def)
qed

lemma createDatamartDefinition_sends:
  "snd (createDatamartDefinition fetch api_key log input) =
     log @ [\<lparr> req_url = ''https://trocco.io/api/datamart_definitions'',
              req_method = POST, req_headers = request_headers api_key,
              req_body = JSON_stringify (body (createDatamartDefinition_options input)) \<rparr>]"
  unfolding snd_createDatamartDefinition snd_troccoRequest
  by (simp add: createDatamartDefinition_options_def)


lemma example_payload:
  "JSON_stringify (Obj [(''name'', Str ''n''), (''data_warehouse_type'', Str ''bigquery''),
            (''description'', Str ''d''), (''is_runnable_concurrently'', Bool True),
            (''datamart_bigquery_option'',
               Obj [(''bigquery_connection_id'', Num 3), (''query_mode'', Str ''insert''),
                    (''query'', Str ''select 1''), (''destination_dataset'', Str ''ds''),
                    (''destination_table'', Str ''t''), (''write_disposition'', Str ''append'')])])
   = Some ''{\"name\":\"n\",\"data_warehouse_type\":\"bigquery\",\"description\":\"d\",\"is_runnable_concurrently\":true,\"datamart_bigquery_option\":{\"bigquery_connection_id\":3,\"query_mode\":\"insert\",\"query\":\"select 1\",\"destination_dataset\":\"ds\",\"destination_table\":\"t\",\"write_disposition\":\"append\"}}''"
  by code_simp


text \<open>
  C3. For an input with the description and the option block present:
  the request body is the input object with every field name in snake case, nested
  block included, and every value kept, and the eleven names stay distinct;
  \<open>createDatamartDefinition\<close> makes one call, the POST to
  \<open>/datamart_definitions\<close> whose body is the JSON serialization of that renamed
  object; when the service answers this request with a 2xx status and an object,
  the operation returns the response's values for the six fields of a definition,
  which is the response itself when it has exactly these six fields. So when the
  service answers the request with the body it was sent and an identifier,
  \<open>createDatamartDefinition\<close> returns the values of the input.
\<close>

theorem rename_round_trip:
  "(description input = Some d \<longrightarrow> datamartBigqueryOption input = Some b \<longrightarrow>
      body (createDatamartDefinition_options input)
        = rename_keys snake_case (CreateDatamartDefinitionInput_object input))
   \<and> distinct (map snake_case
        [''name'', ''dataWarehouseType'', ''description'', ''isRunnableConcurrently'',
         ''datamartBigqueryOption'', ''bigqueryConnectionId'', ''queryMode'', ''query'',
         ''destinationDataset'', ''destinationTable'', ''writeDisposition''])
   \<and> datamartDefinition_result (Obj fs)
       = Inr (Obj (map (\<lambda>k. (k, lookup fs k))
                    [''id'', ''name'', ''data_warehouse_type'', ''description'',
                     ''is_runnable_concurrently'', ''datamart_bigquery_option'']))
   \<and> (map fst fs = [''id'', ''name'', ''data_warehouse_type'', ''description'',
                     ''is_runnable_concurrently'', ''datamart_bigquery_option''] \<longrightarrow>
        datamartDefinition_result (Obj fs) = Inr (Obj fs))
   \<and> (description input = Some d \<longrightarrow> datamartBigqueryOption input = Some b \<longrightarrow>
        (\<exists>payload.
           JSON_stringify (rename_keys snake_case (CreateDatamartDefinitionInput_object input))
             = Some payload
           \<and> snd (createDatamartDefinition fetch api_key log input)
               = log @ [\<lparr> req_url = ''https://trocco.io/api/datamart_definitions'',
                          req_method = POST, req_headers = request_headers api_key,
                          req_body = Some payload \<rparr>]))
   \<and> (description input = Some d \<longrightarrow> datamartBigqueryOption input = Some b \<longrightarrow>
        200 \<le> st \<longrightarrow> st \<le> 299 \<longrightarrow>
        fetch log \<lparr> req_url = ''https://trocco.io/api/datamart_definitions'',
                    req_method = POST, req_headers = request_headers api_key,
                    req_body = JSON_stringify
                      (rename_keys snake_case (CreateDatamartDefinitionInput_object input)) \<rparr>
          = Responded \<lparr> status = st, json = Some (Obj fs) \<rparr> \<longrightarrow>
        createDatamartDefinition fetch api_key log input
          = (Inr (Obj (map (\<lambda>k. (k, lookup fs k))
                         [''id'', ''name'', ''data_warehouse_type'', ''description'',
                          ''is_runnable_concurrently'', ''datamart_bigquery_option''])),
             log @ [\<lparr> req_url = ''https://trocco.io/api/datamart_definitions'',
                      req_method = POST, req_headers = request_headers api_key,
                      req_body = JSON_stringify
                        (rename_keys snake_case (CreateDatamartDefinitionInput_object input)) \<rparr>]))
   \<and> (description input = Some d \<longrightarrow> datamartBigqueryOption input = Some b \<longrightarrow>
        rename_keys snake_case (CreateDatamartDefinitionInput_object input) = Obj sent \<longrightarrow>
        200 \<le> st \<longrightarrow> st \<le> 299 \<longrightarrow>
        fetch log \<lparr> req_url = ''https://trocco.io/api/datamart_definitions'',
                    req_method = POST, req_headers = request_headers api_key,
                    req_body = JSON_stringify (Obj sent) \<rparr>
          = Responded \<lparr> status = st, json = Some (Obj ((''id'', i) # sent)) \<rparr> \<longrightarrow>
        createDatamartDefinition fetch api_key log input
          = (Inr (Obj ((''id'', i) # sent)),
             log @ [\<lparr> req_url = ''https://trocco.io/api/datamart_definitions'',
                      req_method = POST, req_headers = request_headers api_key,
                      req_body = JSON_stringify (Obj sent) \<rparr>]))"
proof (intro conjI impI)
  show "distinct (map snake_case
        [''name'', ''dataWarehouseType'', ''description'', ''isRunnableConcurrently'',
         ''datamartBigqueryOption'', ''bigqueryConnectionId'', ''queryMode'', ''query'',
         ''destinationDataset'', ''destinationTable'', ''writeDisposition''])"
    by (simp add: snake_case_names)
next
  assume d: "description input = Some d" and b: "datamartBigqueryOption input = Some b"
  then show "body (createDatamartDefinition_options input)
        = rename_keys snake_case (CreateDatamartDefinitionInput_object input)"
    by (rule outbound_rename)
next
  show "datamartDefinition_result (Obj fs)
       = Inr (Obj (map (\<lambda>k. (k, lookup fs k))
                    [''id'', ''name'', ''data_warehouse_type'', ''description'',
                     ''is_runnable_concurrently'', ''datamart_bigquery_option'']))"
    by (rule inbound_fields)
next
  assume "map fst fs = [''id'', ''name'', ''data_warehouse_type'', ''description'',
                     ''is_runnable_concurrently'', ''datamart_bigquery_option'']"
  then show "datamartDefinition_result (Obj fs) = Inr (Obj fs)"
    by (rule inbound_identity)
next
  assume d: "description input = Some d" and b: "datamartBigqueryOption input = Some b"
  note out = outbound_rename [OF d b]
  have "truthy (rename_keys snake_case (CreateDatamartDefinitionInput_object input))"
    unfolding out [symmetric] by (simp add: createDatamartDefinition_options_def)
  from JSON_stringify_truthy [OF this] obtain payload where
    p: "JSON_stringify (rename_keys snake_case (CreateDatamartDefinitionInput_object input))
          = Some payload" ..
  have "snd (createDatamartDefinition fetch api_key log input)
      = log @ [\<lparr> req_url = ''https://trocco.io/api/datamart_definitions'',
                 req_method = POST, req_headers = request_headers api_key,
                 req_body = Some payload \<rparr>]"
    unfolding createDatamartDefinition_sends out p ..
  with p show "\<exists>payload.
           JSON_stringify (rename_keys snake_case (CreateDatamartDefinitionInput_object input))
             = Some payload
           \<and> snd (createDatamartDefinition fetch api_key log input)
               = log @ [\<lparr> req_url = ''https://trocco.io/api/datamart_definitions'',
                          req_method = POST, req_headers = request_headers api_key,
                          req_body = Some payload \<rparr>]"
    by blast
next
  assume d: "description input = Some d" and b: "datamartBigqueryOption input = Some b"
    and st: "200 \<le> st" "st \<le> 299"
    and r: "fetch log \<lparr> req_url = ''https://trocco.io/api/datamart_definitions'',
                    req_method = POST, req_headers = request_headers api_key,
                    req_body = JSON_stringify
                      (rename_keys snake_case (CreateDatamartDefinitionInput_object input)) \<rparr>
          = Responded \<lparr> status = st, json = Some (Obj fs) \<rparr>"
  note out = outbound_rename [OF d b]
  from createDatamartDefinition_responded [of fetch log api_key input st "Obj fs",
      unfolded out, OF r st]
  show "createDatamartDefinition fetch api_key log input
          = (Inr (Obj (map (\<lambda>k. (k, lookup fs k))
                         [''id'', ''name'', ''data_warehouse_type'', ''description'',
                          ''is_runnable_concurrently'', ''datamart_bigquery_option''])),
             log @ [\<lparr> req_url = ''https://trocco.io/api/datamart_definitions'',
                      req_method = POST, req_headers = request_headers api_key,
                      req_body = JSON_stringify
                        (rename_keys snake_case (CreateDatamartDefinitionInput_object input)) \<rparr>])"
    by (simp only: inbound_fields)
next
  assume d: "description input = Some d" and b: "datamartBigqueryOption input = Some b"
    and sent: "rename_keys snake_case (CreateDatamartDefinitionInput_object input) = Obj sent"
    and st: "200 \<le> st" "st \<le> 299"
    and r: "fetch log \<lparr> req_url = ''https://trocco.io/api/datamart_definitions'',
                    req_method = POST, req_headers = request_headers api_key,
                    req_body = JSON_stringify (Obj sent) \<rparr>
          = Responded \<lparr> status = st, json = Some (Obj ((''id'', i) # sent)) \<rparr>"
  have keys: "map fst ((''id'', i) # sent) = [''id'', ''name'', ''data_warehouse_type'', ''description'',
                     ''is_runnable_concurrently'', ''datamart_bigquery_option'']"
    using sent
    by (auto simp add: CreateDatamartDefinitionInput_object_def d b snake_case_names)
  note out = outbound_rename [OF d b, unfolded sent]
  from createDatamartDefinition_responded [of fetch log api_key input st "Obj ((''id'', i) # sent)",
      unfolded out, OF r st]
  show "createDatamartDefinition fetch api_key log input
          = (Inr (Obj ((''id'', i) # sent)),
             log @ [\<lparr> req_url = ''https://trocco.io/api/datamart_definitions'',
                      req_method = POST, req_headers = request_headers api_key,
                      req_body = JSON_stringify (Obj sent) \<rparr>])"
    by (simp only: inbound_identity [OF keys])
qed

theorem rename_round_trip_witness:
  "body (createDatamartDefinition_options
        \<lparr> name = ''n'', dataWarehouseType = ''bigquery'', description = Some ''d'',
          isRunnableConcurrently = True,
          datamartBigqueryOption = Some \<lparr> bigqueryConnectionId = 3, queryMode = ''insert'',
            query = ''select 1'', destinationDataset = ''ds'', destinationTable = ''t'',
            writeDisposition = ''append'' \<rparr> \<rparr>)
       = Obj [(''name'', Str ''n''), (''data_warehouse_type'', Str ''bigquery''),
              (''description'', Str ''d''), (''is_runnable_concurrently'', Bool True),
              (''datamart_bigquery_option'',
                 Obj [(''bigquery_connection_id'', Num 3), (''query_mode'', Str ''insert''),
                      (''query'', Str ''select 1''), (''destination_dataset'', Str ''ds''),
                      (''destination_table'', Str ''t''), (''write_disposition'', Str ''append'')])]
   \<and> snd (createDatamartDefinition (scripted []) None []
        \<lparr> name = ''n'', dataWarehouseType = ''bigquery'', description = Some ''d'',
          isRunnableConcurrently = True,
          datamartBigqueryOption = Some \<lparr> bigqueryConnectionId = 3, queryMode = ''insert'',
            query = ''select 1'', destinationDataset = ''ds'', destinationTable = ''t'',
            writeDisposition = ''append'' \<rparr> \<rparr>)
       = [\<lparr> req_url = ''https://trocco.io/api/datamart_definitions'',
            req_method = POST, req_headers = request_headers None,
            req_body = Some ''{\"name\":\"n\",\"data_warehouse_type\":\"bigquery\",\"description\":\"d\",\"is_runnable_concurrently\":true,\"datamart_bigquery_option\":{\"bigquery_connection_id\":3,\"query_mode\":\"insert\",\"query\":\"select 1\",\"destination_dataset\":\"ds\",\"destination_table\":\"t\",\"write_disposition\":\"append\"}}'' \<rparr>]
   \<and> createDatamartDefinition
        (scripted [Responded \<lparr> status = 201, json = Some (Obj
           [(''created_at'', Str ''now''), (''name'', Str ''n''), (''id'', Num 42),
            (''data_warehouse_type'', Str ''bigquery'')]) \<rparr>])
        None []
        \<lparr> name = ''n'', dataWarehouseType = ''bigquery'', description = Some ''d'',
          isRunnableConcurrently = True,
          datamartBigqueryOption = Some \<lparr> bigqueryConnectionId = 3, queryMode = ''insert'',
            query = ''select 1'', destinationDataset = ''ds'', destinationTable = ''t'',
            writeDisposition = ''append'' \<rparr> \<rparr>
       = (Inr (Obj [(''id'', Num 42), (''name'', Str ''n''), (''data_warehouse_type'', Str ''bigquery''),
                    (''description'', Undefined), (''is_runnable_concurrently'', Undefined),
                    (''datamart_bigquery_option'', Undefined)]),
          [\<lparr> req_url = ''https://trocco.io/api/datamart_definitions'',
            req_method = POST, req_headers = request_headers None,
            req_body = Some ''{\"name\":\"n\",\"data_warehouse_type\":\"bigquery\",\"description\":\"d\",\"is_runnable_concurrently\":true,\"datamart_bigquery_option\":{\"bigquery_connection_id\":3,\"query_mode\":\"insert\",\"query\":\"select 1\",\"destination_dataset\":\"ds\",\"destination_table\":\"t\",\"write_disposition\":\"append\"}}'' \<rparr>])
   \<and> createDatamartDefinition
        (scripted [Responded \<lparr> status = 201, json = Some (Obj
           [(''id'', Num 42), (''name'', Str ''n''), (''data_warehouse_type'', Str ''bigquery''),
            (''description'', Str ''d''), (''is_runnable_concurrently'', Bool True),
            (''datamart_bigquery_option'',
               Obj [(''bigquery_connection_id'', Num 3), (''query_mode'', Str ''insert''),
                    (''query'', Str ''select 1''), (''destination_dataset'', Str ''ds''),
                    (''destination_table'', Str ''t''), (''write_disposition'', Str ''append'')])]) \<rparr>])
        None []
        \<lparr> name = ''n'', dataWarehouseType = ''bigquery'', description = Some ''d'',
          isRunnableConcurrently = True,
          datamartBigqueryOption = Some \<lparr> bigqueryConnectionId = 3, queryMode = ''insert'',
            query = ''select 1'', destinationDataset = ''ds'', destinationTable = ''t'',
            writeDisposition = ''append'' \<rparr> \<rparr>
       = (Inr (Obj
           [(''id'', Num 42), (''name'', Str ''n''), (''data_warehouse_type'', Str ''bigquery''),
            (''description'', Str ''d''), (''is_runnable_concurrently'', Bool True),
            (''datamart_bigquery_option'',
               Obj [(''bigquery_connection_id'', Num 3), (''query_mode'', Str ''insert''),
                    (''query'', Str ''select 1''), (''destination_dataset'', Str ''ds''),
                    (''destination_table'', Str ''t''), (''write_disposition'', Str ''append'')])]),
          [\<lparr> req_url = ''https://trocco.io/api/datamart_definitions'',
            req_method = POST, req_headers = request_headers None,
            req_body = Some ''{\"name\":\"n\",\"data_warehouse_type\":\"bigquery\",\"description\":\"d\",\"is_runnable_concurrently\":true,\"datamart_bigquery_option\":{\"bigquery_connection_id\":3,\"query_mode\":\"insert\",\"query\":\"select 1\",\"destination_dataset\":\"ds\",\"destination_table\":\"t\",\"write_disposition\":\"append\"}}'' \<rparr>])
   \<and> datamartDefinition_result (Obj
           [(''id'', Num 42), (''name'', Str ''n''), (''data_warehouse_type'', Str ''bigquery''),
            (''description'', Str ''d''), (''is_runnable_concurrently'', Bool True),
            (''datamart_bigquery_option'', Null)])
       = Inr (Obj
           [(''id'', Num 42), (''name'', Str ''n''), (''data_warehouse_type'', Str ''bigquery''),
            (''description'', Str ''d''), (''is_runnable_concurrently'', Bool True),
            (''datamart_bigquery_option'', Null)])"
proof -
  let ?b = "\<lparr> bigqueryConnectionId = 3, queryMode = ''insert'',
            query = ''select 1'', destinationDataset = ''ds'', destinationTable = ''t'',
            writeDisposition = ''append'' \<rparr>"
  let ?i = "\<lparr> name = ''n'', dataWarehouseType = ''bigquery'', description = Some ''d'',
          isRunnableConcurrently = True, datamartBigqueryOption = Some ?b \<rparr>"
  let ?sent = "[(''name'', Str ''n''), (''data_warehouse_type'', Str ''bigquery''),
            (''description'', Str ''d''), (''is_runnable_concurrently'', Bool True),
            (''datamart_bigquery_option'',
               Obj [(''bigquery_connection_id'', Num 3), (''query_mode'', Str ''insert''),
                    (''query'', Str ''select 1''), (''destination_dataset'', Str ''ds''),
                    (''destination_table'', Str ''t''), (''write_disposition'', Str ''append'')])]"
  let ?partial = "[(''created_at'', Str ''now''), (''name'', Str ''n''), (''id'', Num 42),
            (''data_warehouse_type'', Str ''bigquery'')]"
  let ?null = "[(''id'', Num 42), (''name'', Str ''n''),
            (''data_warehouse_type'', Str ''bigquery''),
            (''description'', Str ''d''), (''is_runnable_concurrently'', Bool True),
            (''datamart_bigquery_option'', Null)]"
  let ?f = "scripted [Responded \<lparr> status = 201, json = Some (Obj ((''id'', Num 42) # ?sent)) \<rparr>]"
  let ?g = "scripted [Responded \<lparr> status = 201, json = Some (Obj ?partial) \<rparr>]"
  let ?req = "\<lparr> req_url = ''https://trocco.io/api/datamart_definitions'',
            req_method = POST, req_headers = request_headers None,
            req_body = Some ''{\"name\":\"n\",\"data_warehouse_type\":\"bigquery\",\"description\":\"d\",\"is_runnable_concurrently\":true,\"datamart_bigquery_option\":{\"bigquery_connection_id\":3,\"query_mode\":\"insert\",\"query\":\"select 1\",\"destination_dataset\":\"ds\",\"destination_table\":\"t\",\"write_disposition\":\"append\"}}'' \<rparr>"
  have d: "description ?i = Some ''d''" and b: "datamartBigqueryOption ?i = Some ?b"
    by simp_all
  have s: "rename_keys snake_case (CreateDatamartDefinitionInput_object ?i) = Obj ?sent"
    by (simp add: CreateDatamartDefinitionInput_object_def DatamartBigqueryOption_object_def
        snake_case_names)
  have st: "(200::nat) \<le> 201" "(201::nat) \<le> 299"
    by simp_all
  have rf: "?f [] \<lparr> req_url = ''https://trocco.io/api/datamart_definitions'',
                    req_method = POST, req_headers = request_headers None,
                    req_body = JSON_stringify (Obj ?sent) \<rparr>
      = Responded \<lparr> status = 201, json = Some (Obj ((''id'', Num 42) # ?sent)) \<rparr>"
    by (simp add: scripted_def)
  have rg: "?g [] \<lparr> req_url = ''https://trocco.io/api/datamart_definitions'',
                    req_method = POST, req_headers = request_headers None,
                    req_body = JSON_stringify
                      (rename_keys snake_case (CreateDatamartDefinitionInput_object ?i)) \<rparr>
      = Responded \<lparr> status = 201, json = Some (Obj ?partial) \<rparr>"
    by (simp add: scripted_def)
  have k: "map fst ?null = [''id'', ''name'', ''data_warehouse_type'', ''description'',
         ''is_runnable_concurrently'', ''datamart_bigquery_option'']"
    by simp
  note t1 = rename_round_trip [where input = ?i and d = "''d''" and b = ?b,
      THEN conjunct1, rule_format, OF d b]
  note t5 = rename_round_trip [where input = ?i and d = "''d''" and b = ?b
        and fetch = "scripted []" and api_key = None and log = "[]",
      THEN conjunct2, THEN conjunct2, THEN conjunct2, THEN conjunct2, THEN conjunct1,
      rule_format, OF d b]
  note t6 = rename_round_trip [where input = ?i and d = "''d''" and b = ?b
        and fetch = ?g and api_key = None and log = "[]" and st = 201 and fs = ?partial,
      THEN conjunct2, THEN conjunct2, THEN conjunct2, THEN conjunct2, THEN conjunct2,
      THEN conjunct1, rule_format, OF d b st rg]
  note t7 = rename_round_trip [where input = ?i and d = "''d''" and b = ?b
        and fetch = ?f and api_key = None and log = "[]" and st = 201 and sent = ?sent
        and i = "Num 42",
      THEN conjunct2, THEN conjunct2, THEN conjunct2, THEN conjunct2, THEN conjunct2,
      THEN conjunct2, rule_format, OF d b s st rf]
  note t4 = rename_round_trip [where fs = ?null,
      THEN conjunct2, THEN conjunct2, THEN conjunct2, THEN conjunct1, rule_format, OF k]
  from t1 have c1: "body (createDatamartDefinition_options ?i) = Obj ?sent"
    by (simp only: s)
  from t5 have c5: "snd (createDatamartDefinition (scripted []) None [] ?i) = [?req]"
    by (simp add: s example_payload)
  from t6 have c6: "createDatamartDefinition ?g None [] ?i
       = (Inr (Obj [(''id'', Num 42), (''name'', Str ''n''), (''data_warehouse_type'', Str ''bigquery''),
                    (''description'', Undefined), (''is_runnable_concurrently'', Undefined),
                    (''datamart_bigquery_option'', Undefined)]), [?req])"
    by (simp add: s example_payload lookup_def)
  from t7 have c7: "createDatamartDefinition ?f None [] ?i
       = (Inr (Obj ((''id'', Num 42) # ?sent)), [?req])"
    by (simp add: example_payload)
  from c1 c5 c6 c7 t4 show ?thesis by simp
qed

lemma quote_keys:
  "quote ''name'' = ''\"name\"''"
  "quote ''data_warehouse_type'' = ''\"data_warehouse_type\"''"
  "quote ''description'' = ''\"description\"''"
  "quote ''is_runnable_concurrently'' = ''\"is_runnable_concurrently\"''"
  "quote ''datamart_bigquery_option'' = ''\"datamart_bigquery_option\"''"
  by code_simp+

text \<open>
  C10. For an input without the option block, the request body still has the key
  \<open>datamart_bigquery_option\<close>; its value is the object whose six fields are
  \<open>undefined\<close>, which serializes to \<open>{}\<close>, and the body sent ends with
  \<open>"datamart_bigquery_option":{}\<close>.
\<close>

theorem absent_option_empty_object:
  "\<exists>fs. body (createDatamartDefinition_options (input \<lparr> datamartBigqueryOption := None \<rparr>)) = Obj fs
     \<and> map_of fs ''datamart_bigquery_option''
         = Some (Obj [(''bigquery_connection_id'', Undefined), (''query_mode'', Undefined),
                      (''query'', Undefined), (''destination_dataset'', Undefined),
                      (''destination_table'', Undefined), (''write_disposition'', Undefined)])
     \<and> JSON_stringify (Obj [(''bigquery_connection_id'', Undefined), (''query_mode'', Undefined),
                      (''query'', Undefined), (''destination_dataset'', Undefined),
                      (''destination_table'', Undefined), (''write_disposition'', Undefined)])
         = Some ''{}''
     \<and> map req_body (snd (createDatamartDefinition fetch api_key log
                               (input \<lparr> datamartBigqueryOption := None \<rparr>)))
         = map req_body log @
           [Some (''{\"name\":'' @ quote (name input)
                  @ '',\"data_warehouse_type\":'' @ quote (dataWarehouseType input)
                  @ (case description input of None \<Rightarrow> [] | Some d \<Rightarrow> '',\"description\":'' @ quote d)
                  @ '',\"is_runnable_concurrently\":''
                  @ (if isRunnableConcurrently input then ''true'' else ''false'')
                  @ '',\"datamart_bigquery_option\":{}}'')]"
proof -
  let ?fs = "[(''name'', Str (name input)),
          (''data_warehouse_type'', Str (dataWarehouseType input)),
          (''description'', (case description input of None \<Rightarrow> Undefined | Some d \<Rightarrow> Str d)),
          (''is_runnable_concurrently'', Bool (isRunnableConcurrently input)),
          (''datamart_bigquery_option'', Obj [(''bigquery_connection_id'', Undefined), (''query_mode'', Undefined),
                      (''query'', Undefined), (''destination_dataset'', Undefined),
                      (''destination_table'', Undefined), (''write_disposition'', Undefined)])]"
  have b: "body (createDatamartDefinition_options (input \<lparr> datamartBigqueryOption := None \<rparr>)) = Obj ?fs"
    by (simp add: createDatamartDefinition_options_def optional_chain_def)
  have m: "map_of ?fs ''datamart_bigquery_option''
         = Some (Obj [(''bigquery_connection_id'', Undefined), (''query_mode'', Undefined),
                      (''query'', Undefined), (''destination_dataset'', Undefined),
                      (''destination_table'', Undefined), (''write_disposition'', Undefined)])"
    by simp
  have e: "JSON_stringify (Obj [(''bigquery_connection_id'', Undefined), (''query_mode'', Undefined),
                      (''query'', Undefined), (''destination_dataset'', Undefined),
                      (''destination_table'', Undefined), (''write_disposition'', Undefined)])
         = Some ''{}''"
    by (simp add: JSON_stringify_def wrap_def)
  have t: "JSON_stringify (Obj ?fs) =
       Some (''{\"name\":'' @ quote (name input)
                  @ '',\"data_warehouse_type\":'' @ quote (dataWarehouseType input)
                  @ (case description input of None \<Rightarrow> [] | Some d \<Rightarrow> '',\"description\":'' @ quote d)
                  @ '',\"is_runnable_concurrently\":''
                  @ (if isRunnableConcurrently input then ''true'' else ''false'')
                  @ '',\"datamart_bigquery_option\":{}}'')"
    by (cases "description input") (simp_all add: JSON_stringify_def wrap_def quote_keys)
  have r: "map req_body (snd (createDatamartDefinition fetch api_key log
                               (input \<lparr> datamartBigqueryOption := None \<rparr>)))
         = map req_body log @ [JSON_stringify (Obj ?fs)]"
    unfolding snd_createDatamartDefinition snd_troccoRequest b by simp
  from b m e r t show ?thesis by metis
qed

end
